theory Spec2Isabelle
  imports Complex_Main "HOL-Library.AList" "HOL-Library.Multiset" "HOL-Library.Word"
begin

section \<open>Faster R-CNN orchestrator (frcnn/network.py)\<close>

text \<open>
  The development embeds the class \<open>FasterRCNN\<close> of \<open>frcnn/network.py\<close>: its constructor,
  the forward pass \<open>_build\<close>, \<open>load_from_checkpoints\<close>, \<open>loss\<close> and \<open>_generate_anchors\<close>.
  A leading underscore of a Python name is dropped (\<open>_build\<close> is \<open>build\<close>), and an attribute
  \<open>self._x\<close> is the record field \<open>self_x\<close>.

  A dimension of a shape is a \<open>nat\<close> and a Python integer an \<open>int\<close>. The elements of an
  \<open>int32\<close> tensor are \<open>32 word\<close>s, read as signed numbers by \<open>sint\<close>: their sums and products
  wrap around. A float is a \<open>real\<close>; the rounding of float arithmetic is outside the model.
\<close>

subsection \<open>Errors, tensors and the library operations used\<close>

datatype error = KeyError | ValueError | OverflowError | ConfigError

record tensor =
  shape :: "nat list"
  vals :: "real list"

text \<open>\<open>tf.shape(t)[1:3]\<close>: a slice never fails, it is cut at the end of the vector.\<close>

definition shape_1_3 :: "tensor \<Rightarrow> nat list" where
  "shape_1_3 t = take 2 (drop 1 (shape t))"

text \<open>Reading one entry of a shape vector; an index past its end is rejected.\<close>

definition getitem :: "'a list \<Rightarrow> nat \<Rightarrow> error + 'a" where
  "getitem v i = (if i < length v then Inr (v ! i) else Inl ValueError)"

text \<open>
  \<open>tf.range(n)\<close> for a dimension \<open>n\<close> read from \<open>tf.shape\<close>, itself an \<open>int32\<close>: the
  \<open>int32\<close> vector \<open>0, ..., n - 1\<close>.
\<close>

definition tf_range :: "nat \<Rightarrow> 32 word list" where
  "tf_range n = map of_nat [0..<n]"

text \<open>
  An operand of \<open>*\<close> or \<open>+\<close> that is not a tensor is converted to the element type of the
  tensor operand, here \<open>int32\<close>. A Python integer outside the 32-bit range is refused.
\<close>

definition int32_of_int :: "int \<Rightarrow> error + 32 word" where
  "int32_of_int v =
     (if - 2147483648 \<le> v \<and> v < 2147483648 then Inr (word_of_int v) else Inl OverflowError)"

text \<open>
  A numpy array of floats is converted by \<open>astype\<close>: the fraction is dropped (rounding
  towards zero). Outside the 32-bit range the result of that conversion is not defined by
  numpy; the model wraps there, and no theorem below relies on it.
\<close>

definition astype_int32 :: "real \<Rightarrow> 32 word" where
  "astype_int32 x = word_of_int (if 0 \<le> x then \<lfloor>x\<rfloor> else \<lceil>x\<rceil>)"

text \<open>
  Modelled from the spec: \<open>utils/ops.py\<close>, which defines \<open>meshgrid\<close>, is not among the
  sources. The tiling contract (every grid cell \<open>(i, j)\<close> is offset by
  \<open>(i * stride, j * stride)\<close>) and the source's remark that the shifts form an
  \<open>(H x W, 4)\<close> tensor fix it as the usual coordinate grids of shape \<open>(H, W)\<close>:
  \<open>xgrid[r][c] = x[c]\<close> and \<open>ygrid[r][c] = y[r]\<close>.
\<close>

definition meshgrid :: "'a list \<Rightarrow> 'a list \<Rightarrow> 'a list list \<times> 'a list list" where
  "meshgrid x y = (replicate (length y) x, map (\<lambda>v. replicate (length x) v) y)"

text \<open>\<open>tf.reshape(t, [-1])\<close> of a matrix: its rows one after the other.\<close>

definition reshape_flat :: "'a list list \<Rightarrow> 'a list" where
  "reshape_flat m = concat m"

text \<open>\<open>tf.stack(ts, axis=0)\<close>: the vectors become the rows of a matrix.\<close>

definition tf_stack :: "'a list list \<Rightarrow> 'a list list" where
  "tf_stack ts = ts"

text \<open>
  \<open>tf.transpose\<close> of the two leading axes. All rows have the length of the first one
  wherever it is used below.
\<close>

definition tf_transpose :: "'a list list \<Rightarrow> 'a list list" where
  "tf_transpose m =
     (case m of [] \<Rightarrow> [] | r # _ \<Rightarrow> map (\<lambda>i. map (\<lambda>row. row ! i) m) [0..<length r])"

text \<open>
  \<open>reference.reshape((1, k, 4))\<close> with \<open>k = reference.shape[0]\<close>: numpy refuses it unless
  the array holds \<open>4 * k\<close> numbers, that is unless every row has four entries.
\<close>

definition reshape_1_k_4 :: "real list list \<Rightarrow> error + real list list list" where
  "reshape_1_k_4 reference =
     (if list_all (\<lambda>row. length row = 4) reference then Inr [reference] else Inl ValueError)"

text \<open>\<open>tf.reshape(shifts, (1, n, 4))\<close> of an \<open>(n, 4)\<close> matrix adds a leading axis.\<close>

definition reshape_1_n_4 :: "'a list list \<Rightarrow> 'a list list list" where
  "reshape_1_n_4 m = [m]"

text \<open>
  Broadcasting along one axis: an operand of length one is repeated. The shapes met below
  are \<open>(1, k, 4)\<close> and \<open>(n, 1, 4)\<close>, which are always compatible.
\<close>

definition broadcast :: "('a \<Rightarrow> 'b \<Rightarrow> 'c) \<Rightarrow> 'a list \<Rightarrow> 'b list \<Rightarrow> 'c list" where
  "broadcast f a b =
     (if length a = 1 then map (f (hd a)) b
      else if length b = 1 then map (\<lambda>x. f x (hd b)) a
      else map2 f a b)"

text \<open>
  \<open>reference + shifts\<close> with the numpy reference on the left and the \<open>int32\<close> tensor on the
  right: the reference is converted to \<open>int32\<close>, then the two are added with broadcasting.
\<close>

definition add3 :: "real list list list \<Rightarrow> 32 word list list list \<Rightarrow> 32 word list list list" where
  "add3 a b = broadcast (broadcast (broadcast (+))) (map (map (map astype_int32)) a) b"

text \<open>\<open>tf.reshape(t, (k * n, 4))\<close> of an \<open>(n, k, 4)\<close> tensor.\<close>

definition reshape_kn_4 :: "'a list list list \<Rightarrow> 'a list list" where
  "reshape_kn_4 t = concat t"

subsection \<open>Configuration, sub-components and the orchestrator\<close>

text \<open>
  The configuration object. \<open>__init__\<close> reads the first five attributes.

  Modelled from the spec: the four loss weights are listed in the configuration surface
  (``loss weights (4 floats)'', named \<open>rpn_cls_weight\<close>, \<open>rpn_reg_weight\<close>,
  \<open>rcnn_cls_weight\<close>, \<open>rcnn_reg_weight\<close>); no line of \<open>network.py\<close> reads them.
\<close>

record config =
  ANCHOR_BASE_SIZE :: real
  ANCHOR_SCALES :: "real list"
  ANCHOR_RATIOS :: "real list"
  ANCHOR_STRIDE :: int
  PRETRAINED_TRAINABLE :: bool
  rpn_cls_weight :: real
  rpn_reg_weight :: real
  rcnn_cls_weight :: real
  rcnn_reg_weight :: real

text \<open>
  The sub-components are objects of classes of other modules (\<open>pretrained.py\<close>, \<open>rpn.py\<close>,
  \<open>roi_pool.py\<close>, \<open>rcnn.py\<close>); here each carries the arguments it was built from.
\<close>

datatype VGG = VGG bool
datatype RPN = RPN nat
datatype ROIPoolingLayer = ROIPoolingLayer
datatype RCNN = RCNN "nat option"

record FasterRCNN =
  self_cfg :: config
  self_num_classes :: "nat option"
  self_anchor_base_size :: real
  self_anchor_scales :: "real list"
  self_anchor_ratios :: "real list"
  self_anchor_stride :: int
  self_anchor_reference :: "real list list"
  self_num_anchors :: nat
  self_rpn_cls_loss_weight :: real
  self_rpn_reg_loss_weight :: real
  self_rcnn_cls_loss_weight :: real
  self_rcnn_reg_loss_weight :: real
  self_pretrained :: VGG
  self_rpn :: RPN
  self_roi_pool :: ROIPoolingLayer
  self_rcnn :: RCNN

subsection \<open>The anchor generator\<close>

text \<open>
  The stride is converted to \<open>int32\<close> when it first meets a tensor, in
  \<open>tf.range(grid_width) * self._anchor_stride\<close>.
\<close>

definition generate_anchors :: "FasterRCNN \<Rightarrow> tensor \<Rightarrow> error + 32 word list list" where
  "generate_anchors self feature_map =
     (let feature_map_shape = shape_1_3 feature_map
      in case getitem feature_map_shape 1 of
           Inl e \<Rightarrow> Inl e
         | Inr grid_width \<Rightarrow>
       (case getitem feature_map_shape 0 of
           Inl e \<Rightarrow> Inl e
         | Inr grid_height \<Rightarrow>
       (case int32_of_int (self_anchor_stride self) of
           Inl e \<Rightarrow> Inl e
         | Inr stride \<Rightarrow>
           (let shift_x = map (\<lambda>v. v * stride) (tf_range grid_width);
                shift_y = map (\<lambda>v. v * stride) (tf_range grid_height);
                (shift_x, shift_y) = meshgrid shift_x shift_y;
                shift_x = reshape_flat shift_x;
                shift_y = reshape_flat shift_y;
                shifts = tf_stack [shift_x, shift_y, shift_x, shift_y];
                shifts = tf_transpose shifts
            in case reshape_1_k_4 (self_anchor_reference self) of
                 Inl e \<Rightarrow> Inl e
               | Inr reference \<Rightarrow>
                   Inr (reshape_kn_4 (add3 reference (tf_transpose (reshape_1_n_4 shifts))))))))"

subsection \<open>Collaborators and the global graph\<close>

text \<open>
  The modules \<open>utils/generate_anchors.py\<close>, \<open>pretrained.py\<close>, \<open>rpn.py\<close>, \<open>roi_pool.py\<close>,
  \<open>rcnn.py\<close> and \<open>utils/image.py\<close> are not among the sources. What \<open>network.py\<close> calls in
  them is a parameter of the model: a deterministic function of its arguments. The
  reference generator and the four constructors, all called by \<open>__init__\<close>, may fail. The
  RPN's prediction and the two loss results are dictionaries; \<open>'c\<close> is whatever the RCNN head
  returns.
\<close>

record 'c collaborators =
  generate_anchors_reference :: "real \<Rightarrow> real list \<Rightarrow> real list \<Rightarrow> error + real list list"
  VGG_new :: "bool \<Rightarrow> error + VGG"
  RPN_new :: "nat \<Rightarrow> error + RPN"
  ROIPoolingLayer_new :: "error + ROIPoolingLayer"
  RCNN_new :: "nat option \<Rightarrow> error + RCNN"
  VGG_call :: "VGG \<Rightarrow> tensor \<Rightarrow> tensor"
  RPN_call :: "RPN \<Rightarrow> tensor \<Rightarrow> tensor \<Rightarrow> nat list \<Rightarrow> 32 word list list \<Rightarrow> bool \<Rightarrow> (string \<rightharpoonup> tensor)"
  ROIPoolingLayer_call :: "ROIPoolingLayer \<Rightarrow> tensor \<Rightarrow> tensor \<Rightarrow> tensor"
  RCNN_call :: "RCNN \<Rightarrow> tensor \<Rightarrow> tensor \<Rightarrow> tensor \<Rightarrow> 'c"
  draw_bboxes :: "tensor \<Rightarrow> tensor \<Rightarrow> tensor"
  RPN_loss :: "RPN \<Rightarrow> (string \<rightharpoonup> tensor) \<Rightarrow> (string \<times> real) list"
  RCNN_loss :: "RCNN \<Rightarrow> 'c \<Rightarrow> (string \<times> real) list"

text \<open>
  The process-global graph collections the orchestrator writes to: the loss collection of
  \<open>tf.losses\<close>, the regularization losses that \<open>get_total_loss\<close> adds, the scalar
  summaries of the collection \<open>'Losses'\<close> and the image summaries.
\<close>

record graph =
  losses :: "real list"
  regularization_losses :: "real list"
  scalar_summaries :: "(string \<times> real) list"
  image_summaries :: "(string \<times> tensor) list"

definition add_loss :: "real \<Rightarrow> graph \<Rightarrow> graph" where
  "add_loss l g = g\<lparr>losses := losses g @ [l]\<rparr>"

definition summary_scalar :: "string \<Rightarrow> real \<Rightarrow> graph \<Rightarrow> graph" where
  "summary_scalar name v g = g\<lparr>scalar_summaries := scalar_summaries g @ [(name, v)]\<rparr>"

definition summary_image :: "string \<Rightarrow> tensor \<Rightarrow> graph \<Rightarrow> graph" where
  "summary_image name t g = g\<lparr>image_summaries := image_summaries g @ [(name, t)]\<rparr>"

text \<open>
  \<open>tf.losses.get_total_loss()\<close>: the sum (\<open>add_n\<close>) of the loss collection and the
  regularization losses; \<open>add_n\<close> rejects an empty list.
\<close>

definition get_total_loss :: "graph \<Rightarrow> error + real" where
  "get_total_loss g =
     (let ls = losses g @ regularization_losses g
      in if ls = [] then Inl ValueError else Inr (sum_list ls))"

subsection \<open>Construction\<close>

text \<open>
  \<open>__init__\<close>. The module name and the variable scope of the base class play no part in
  what follows and are left out; \<open>num_classes\<close> may be absent (\<open>None\<close>). The reference
  generator and the constructors of the four sub-components are called in the order of the
  source, and the first error ends the construction.
\<close>

definition FasterRCNN_init :: "'c collaborators \<Rightarrow> config \<Rightarrow> nat option \<Rightarrow> error + FasterRCNN" where
  "FasterRCNN_init env config num_classes =
     (case generate_anchors_reference env
             (ANCHOR_BASE_SIZE config) (ANCHOR_RATIOS config) (ANCHOR_SCALES config) of
        Inl e \<Rightarrow> Inl e
      | Inr reference \<Rightarrow>
     (case VGG_new env (PRETRAINED_TRAINABLE config) of
        Inl e \<Rightarrow> Inl e
      | Inr vgg \<Rightarrow>
     (case RPN_new env (length reference) of
        Inl e \<Rightarrow> Inl e
      | Inr rpn \<Rightarrow>
     (case ROIPoolingLayer_new env of
        Inl e \<Rightarrow> Inl e
      | Inr layer \<Rightarrow>
     (case RCNN_new env num_classes of
        Inl e \<Rightarrow> Inl e
      | Inr rcnn \<Rightarrow>
          Inr \<lparr> self_cfg = config,
                self_num_classes = num_classes,
                self_anchor_base_size = ANCHOR_BASE_SIZE config,
                self_anchor_scales = ANCHOR_SCALES config,
                self_anchor_ratios = ANCHOR_RATIOS config,
                self_anchor_stride = ANCHOR_STRIDE config,
                self_anchor_reference = reference,
                self_num_anchors = length reference,
                self_rpn_cls_loss_weight = 1,
                self_rpn_reg_loss_weight = 2,
                self_rcnn_cls_loss_weight = 1,
                self_rcnn_reg_loss_weight = 2,
                self_pretrained = vgg,
                self_rpn = rpn,
                self_roi_pool = layer,
                self_rcnn = rcnn \<rparr>)))))"

subsection \<open>The forward pass\<close>

text \<open>The dictionary \<open>_build\<close> returns; its seven keys are the fields.\<close>

record 'c prediction_dict =
  image_shape :: "nat list"
  all_anchors :: "32 word list list"
  rpn_prediction :: "string \<rightharpoonup> tensor"
  classification_prediction :: 'c
  roi_pool :: tensor
  gt_boxes :: tensor
  rpn_drawn_image :: tensor

text \<open>
  \<open>rpn_prediction['proposals']\<close> is read three times from a dictionary nothing changes in
  between, so the model reads it once; a missing key is a \<open>KeyError\<close>.
\<close>

definition build ::
  "'c collaborators \<Rightarrow> FasterRCNN \<Rightarrow> tensor \<Rightarrow> tensor \<Rightarrow> bool \<Rightarrow> graph
     \<Rightarrow> error + ('c prediction_dict \<times> graph)" where
  "build env self img gt is_training g =
     (let im_shape = shape_1_3 img;
          pretrained_output = VGG_call env (self_pretrained self) img
      in case generate_anchors self pretrained_output of
           Inl e \<Rightarrow> Inl e
         | Inr anchors \<Rightarrow>
            (let rpn_pred = RPN_call env (self_rpn self) pretrained_output gt im_shape
                              anchors is_training
             in case rpn_pred ''proposals'' of
                  None \<Rightarrow> Inl KeyError
                | Some proposals \<Rightarrow>
                   (let pooled = ROIPoolingLayer_call env (self_roi_pool self) proposals
                                   pretrained_output;
                        cls_pred = RCNN_call env (self_rcnn self) pooled proposals gt;
                        drawn_image = draw_bboxes env img proposals;
                        g1 = summary_image ''image'' img g;
                        g2 = summary_image ''top_10_rpn_boxes'' drawn_image g1
                    in Inr (\<lparr> image_shape = im_shape,
                               all_anchors = anchors,
                               rpn_prediction = rpn_pred,
                               classification_prediction = cls_pred,
                               roi_pool = pooled,
                               gt_boxes = gt,
                               rpn_drawn_image = drawn_image \<rparr>, g2))))"

subsection \<open>Checkpoints\<close>

text \<open>The body is \<open>pass\<close>: the result is \<open>None\<close> (the unit value), nothing is written.\<close>

definition load_from_checkpoints ::
  "FasterRCNN \<Rightarrow> 'k \<Rightarrow> graph \<Rightarrow> unit \<times> FasterRCNN \<times> graph" where
  "load_from_checkpoints self checkpoints g = ((), self, g)"

subsection \<open>The joint loss\<close>

text \<open>
  \<open>d[k] = d[k] * w\<close> on a dictionary kept as an association list: the entry keeps its
  place; a missing key is a \<open>KeyError\<close>.
\<close>

definition scale_item :: "string \<Rightarrow> real \<Rightarrow> (string \<times> real) list \<Rightarrow> error + (string \<times> real) list" where
  "scale_item k w d =
     (case map_of d k of None \<Rightarrow> Inl KeyError | Some v \<Rightarrow> Inr (AList.update k (v * w) d))"

text \<open>One round of the loop: a scalar summary, then \<open>tf.losses.add_loss\<close>.\<close>

definition register_loss :: "graph \<Rightarrow> string \<times> real \<Rightarrow> graph" where
  "register_loss g item = add_loss (snd item) (summary_scalar (fst item) (snd item) g)"

definition loss ::
  "'c collaborators \<Rightarrow> FasterRCNN \<Rightarrow> 'c prediction_dict \<Rightarrow> graph \<Rightarrow> error + (real \<times> graph)" where
  "loss env self prediction g =
     (let rpn_loss_dict = RPN_loss env (self_rpn self) (rpn_prediction prediction);
          rcnn_loss_dict = RCNN_loss env (self_rcnn self) (classification_prediction prediction)
      in case scale_item ''rpn_cls_loss'' (self_rpn_cls_loss_weight self) rpn_loss_dict of
           Inl e \<Rightarrow> Inl e
         | Inr rpn1 \<Rightarrow>
       (case scale_item ''rpn_reg_loss'' (self_rpn_reg_loss_weight self) rpn1 of
           Inl e \<Rightarrow> Inl e
         | Inr rpn2 \<Rightarrow>
       (case scale_item ''rcnn_cls_loss'' (self_rcnn_cls_loss_weight self) rcnn_loss_dict of
           Inl e \<Rightarrow> Inl e
         | Inr rcnn1 \<Rightarrow>
       (case scale_item ''rcnn_reg_loss'' (self_rcnn_reg_loss_weight self) rcnn1 of
           Inl e \<Rightarrow> Inl e
         | Inr rcnn2 \<Rightarrow>
           (let g1 = foldl register_loss g (rpn2 @ rcnn2)
            in case get_total_loss g1 of
                 Inl e \<Rightarrow> Inl e
               | Inr total_loss \<Rightarrow>
                   Inr (total_loss, summary_scalar ''total_loss'' total_loss g1))))))"

subsection \<open>Shifting a box, and a concrete instance\<close>

text \<open>
  Adding \<open>(dx, dy)\<close> to both corners \<open>(x1, y1)\<close> and \<open>(x2, y2)\<close> of a box of \<open>int32\<close>
  coordinates.
\<close>

definition shift_box :: "32 word list \<Rightarrow> 32 word \<Rightarrow> 32 word \<Rightarrow> 32 word list" where
  "shift_box box dx dy = map2 (+) box [dx, dy, dx, dy]"

text \<open>A whole number that a signed 32-bit integer holds.\<close>

definition int32_value :: "real \<Rightarrow> bool" where
  "int32_value x \<longleftrightarrow> x = real_of_int \<lfloor>x\<rfloor> \<and> - 2147483648 \<le> x \<and> x < 2147483648"

text \<open>The coordinates of an \<open>int32\<close> box as numbers.\<close>

definition box_values :: "32 word list \<Rightarrow> real list" where
  "box_values box = map (\<lambda>v. real_of_int (sint v)) box"

text \<open>
  A configuration with the usual nine reference anchors (base size 16, ratios 0.5, 1, 2,
  scales 8, 16, 32), the orchestrator built from it, and a \<open>14 x 14\<close> feature map with 512
  channels. The configuration's four loss weights are all 5. The collaborators of the
  instance are stand-ins: a reference generator that returns the nine anchors, constructors
  that keep their arguments, a backbone of stride 16, an RPN with one proposal, and component losses 1, 10, 100 and 1000 (all 0 in
  \<open>zero_loss_env\<close>).
\<close>

definition demo_reference :: "real list list" where
  "demo_reference =
     [[-84, -40, 99, 55], [-176, -88, 191, 103], [-360, -184, 375, 199],
      [-56, -56, 71, 71], [-120, -120, 135, 135], [-248, -248, 263, 263],
      [-36, -80, 51, 95], [-80, -168, 95, 183], [-168, -344, 183, 359]]"

definition demo_config :: config where
  "demo_config =
     \<lparr> ANCHOR_BASE_SIZE = 16, ANCHOR_SCALES = [8, 16, 32], ANCHOR_RATIOS = [1 / 2, 1, 2],
       ANCHOR_STRIDE = 16, PRETRAINED_TRAINABLE = False,
       rpn_cls_weight = 5, rpn_reg_weight = 5, rcnn_cls_weight = 5, rcnn_reg_weight = 5 \<rparr>"

definition demo_self :: FasterRCNN where
  "demo_self =
     \<lparr> self_cfg = demo_config, self_num_classes = Some 20, self_anchor_base_size = 16,
       self_anchor_scales = [8, 16, 32], self_anchor_ratios = [1 / 2, 1, 2],
       self_anchor_stride = 16, self_anchor_reference = demo_reference, self_num_anchors = 9,
       self_rpn_cls_loss_weight = 1, self_rpn_reg_loss_weight = 2,
       self_rcnn_cls_loss_weight = 1, self_rcnn_reg_loss_weight = 2,
       self_pretrained = VGG False, self_rpn = RPN 9, self_roi_pool = ROIPoolingLayer,
       self_rcnn = RCNN (Some 20) \<rparr>"

definition demo_feature_map :: tensor where
  "demo_feature_map = \<lparr> shape = [1, 14, 14, 512], vals = [] \<rparr>"

definition demo_image :: tensor where
  "demo_image = \<lparr> shape = [1, 224, 224, 3], vals = [] \<rparr>"

definition demo_image2 :: tensor where
  "demo_image2 = \<lparr> shape = [2, 224, 230, 3], vals = [7] \<rparr>"

definition demo_gt_boxes :: tensor where
  "demo_gt_boxes = \<lparr> shape = [1, 4], vals = [100, 100, 200, 200] \<rparr>"

definition demo_proposals :: tensor where
  "demo_proposals = \<lparr> shape = [1, 4], vals = [96, 96, 208, 208] \<rparr>"

definition demo_env :: "tensor collaborators" where
  "demo_env =
     \<lparr> generate_anchors_reference = (\<lambda>base_size ratios scales. Inr demo_reference),
       VGG_new = (\<lambda>trainable. Inr (VGG trainable)),
       RPN_new = (\<lambda>num_anchors. Inr (RPN num_anchors)),
       ROIPoolingLayer_new = Inr ROIPoolingLayer,
       RCNN_new = (\<lambda>num_classes. Inr (RCNN num_classes)),
       VGG_call = (\<lambda>vgg t. case shape t of
                      [n, h, w, c] \<Rightarrow> \<lparr> shape = [n, h div 16, w div 16, 512], vals = [] \<rparr>
                    | _ \<Rightarrow> t),
       RPN_call = (\<lambda>rpn fm gt im_shape anchors is_training. [''proposals'' \<mapsto> demo_proposals]),
       ROIPoolingLayer_call = (\<lambda>layer proposals fm. \<lparr> shape = [1, 7, 7, 512], vals = vals proposals \<rparr>),
       RCNN_call = (\<lambda>rcnn pooled proposals gt. \<lparr> shape = [1, 21], vals = vals pooled @ vals gt \<rparr>),
       draw_bboxes = (\<lambda>img boxes. img),
       RPN_loss = (\<lambda>rpn pred. [(''rpn_cls_loss'', 1), (''rpn_reg_loss'', 10)]),
       RCNN_loss = (\<lambda>rcnn pred. [(''rcnn_cls_loss'', 100), (''rcnn_reg_loss'', 1000)]) \<rparr>"

definition demo_prediction :: "tensor prediction_dict" where
  "demo_prediction =
     \<lparr> image_shape = [224, 224], all_anchors = [[- 84, - 40, 99, 55]],
       rpn_prediction = [''proposals'' \<mapsto> demo_proposals],
       classification_prediction = \<lparr> shape = [1, 21], vals = [96, 96, 208, 208, 100, 100, 200, 200] \<rparr>,
       roi_pool = \<lparr> shape = [1, 7, 7, 512], vals = [96, 96, 208, 208] \<rparr>,
       gt_boxes = demo_gt_boxes, rpn_drawn_image = demo_image \<rparr>"


definition empty_graph :: graph where
  "empty_graph = \<lparr> losses = [], regularization_losses = [], scalar_summaries = [], image_summaries = [] \<rparr>"

section \<open>Properties of the anchor generator\<close>

lemma shape_1_3_nth:
  assumes "3 \<le> length (shape t)"
  shows "getitem (shape_1_3 t) 1 = Inr (shape t ! 2)"
    and "getitem (shape_1_3 t) 0 = Inr (shape t ! 1)"
  using assms by (simp_all add: getitem_def shape_1_3_def numeral_2_eq_2)

lemma shape_1_3_nth_Suc:
  assumes "3 \<le> length (shape t)"
  shows "getitem (shape_1_3 t) (Suc 0) = Inr (shape t ! 2)"
  using shape_1_3_nth(1)[OF assms] by simp

lemma concat_blocks_length:
  "(\<And>x. x \<in> set xs \<Longrightarrow> length (g x) = k) \<Longrightarrow> length (concat (map g xs)) = length xs * k"
  by (induction xs) simp_all

lemma concat_blocks_nth:
  "(\<And>x. x \<in> set xs \<Longrightarrow> length (g x) = k) \<Longrightarrow> p < length xs \<Longrightarrow> a < k \<Longrightarrow>
   concat (map g xs) ! (p * k + a) = g (xs ! p) ! a"
proof (induction xs arbitrary: p)
  case Nil
  then show ?case by simp
next
  case (Cons x xs)
  show ?case
  proof (cases p)
    case 0
    with Cons.prems show ?thesis by (simp add: nth_append)
  next
    case (Suc q)
    with Cons.prems have "concat (map g xs) ! (q * k + a) = g (xs ! q) ! a"
      by (intro Cons.IH) auto
    with Suc Cons.prems show ?thesis by (simp add: nth_append add.assoc)
  qed
qed

lemma flat_x: "reshape_flat (replicate h xs) = concat (map (\<lambda>p. xs) [0..<h])"
  by (simp add: reshape_flat_def map_replicate_const)

lemma flat_x_nth:
  assumes "p < h * length xs"
  shows "reshape_flat (replicate h xs) ! p = xs ! (p mod length xs)"
proof -
  let ?w = "length xs"
  have w: "0 < ?w" using assms by (cases xs) auto
  have q: "p div ?w < h" using assms w by (simp add: less_mult_imp_div_less)
  have "concat (map (\<lambda>p. xs) [0..<h]) ! (p div ?w * ?w + p mod ?w) = xs ! (p mod ?w)"
    using q w by (subst concat_blocks_nth[where k="?w"]) auto
  then show ?thesis by (simp add: flat_x)
qed

lemma flat_y_nth:
  assumes "p < length ys * w"
  shows "reshape_flat (map (\<lambda>v. replicate w v) ys) ! p = ys ! (p div w)"
proof -
  have w: "0 < w" using assms by (cases w) auto
  have q: "p div w < length ys" using assms w by (simp add: less_mult_imp_div_less)
  have "concat (map (\<lambda>v. replicate w v) ys) ! (p div w * w + p mod w) = replicate w (ys ! (p div w)) ! (p mod w)"
    using q w by (subst concat_blocks_nth[where k="w"]) auto
  then show ?thesis using q w by (simp add: reshape_flat_def)
qed

lemma flat_x_length: "length (reshape_flat (replicate h xs)) = h * length xs"
  by (simp add: reshape_flat_def length_concat sum_list_replicate)

lemma flat_y_length: "length (reshape_flat (map (\<lambda>v. replicate w v) ys)) = length ys * w"
  by (simp add: reshape_flat_def length_concat comp_def sum_list_triv)

lemma transpose4: "tf_transpose (tf_stack [a, b, a, b]) = map (\<lambda>i. [a ! i, b ! i, a ! i, b ! i]) [0..<length a]"
  by (simp add: tf_transpose_def tf_stack_def)

lemma transpose1: "tf_transpose (reshape_1_n_4 m) = map (\<lambda>r. [r]) m"
  unfolding tf_transpose_def reshape_1_n_4_def by (rule nth_equalityI) auto

lemma broadcast_singleton_right: "broadcast g ref [r] = map (\<lambda>a. g a r) ref"
  by (cases ref; cases "tl ref") (auto simp: broadcast_def)

lemma broadcast_singleton_left: "broadcast g [ref] bs = map (g ref) bs"
  by (simp add: broadcast_def)

lemma broadcast_same: "length a = 4 \<Longrightarrow> length b = 4 \<Longrightarrow> broadcast f a b = map2 f a b"
  by (simp add: broadcast_def)

lemma add3_eq:
  assumes "list_all (\<lambda>row. length row = 4) ref" "list_all (\<lambda>row. length row = 4) shifts"
  shows "add3 [ref] (map (\<lambda>r. [r]) shifts) =
         map (\<lambda>r. map (\<lambda>a. map2 (+) (map astype_int32 a) r) ref) shifts"
  using assms
  by (auto simp: add3_def broadcast_singleton_left broadcast_singleton_right broadcast_same
        list_all_iff)

lemma int32_of_int_ok:
  "- 2147483648 \<le> v \<Longrightarrow> v < 2147483648 \<Longrightarrow> int32_of_int v = Inr (word_of_int v)"
  by (simp add: int32_of_int_def)

lemma generate_anchors_eq:
  assumes rank: "3 \<le> length (shape fm)"
    and ref: "list_all (\<lambda>row. length row = 4) (self_anchor_reference self)"
    and stride: "- 2147483648 \<le> self_anchor_stride self" "self_anchor_stride self < 2147483648"
  shows "generate_anchors self fm =
     Inr (concat (map (\<lambda>p. map (\<lambda>a. shift_box (map astype_int32 a)
               (of_nat (p mod (shape fm ! 2)) * word_of_int (self_anchor_stride self))
               (of_nat (p div (shape fm ! 2)) * word_of_int (self_anchor_stride self)))
            (self_anchor_reference self)) [0..<shape fm ! 1 * (shape fm ! 2)]))"
proof -
  let ?W = "shape fm ! 2" and ?H = "shape fm ! 1"
  let ?s = "word_of_int (self_anchor_stride self) :: 32 word"
  let ?xs = "map (\<lambda>v. v * ?s) (tf_range ?W)" and ?ys = "map (\<lambda>v. v * ?s) (tf_range ?H)"
  let ?fx = "reshape_flat (replicate (length ?ys) ?xs)"
  let ?fy = "reshape_flat (map (\<lambda>v. replicate (length ?xs) v) ?ys)"
  let ?shifts = "tf_transpose (tf_stack [?fx, ?fy, ?fx, ?fy])"
  have lx: "length ?xs = ?W" and ly: "length ?ys = ?H" by (simp_all add: tf_range_def)
  have lfx: "length ?fx = ?H * ?W" by (simp add: flat_x_length tf_range_def)
  have sh: "?shifts = map (\<lambda>p. [of_nat (p mod ?W) * ?s, of_nat (p div ?W) * ?s,
                                  of_nat (p mod ?W) * ?s, of_nat (p div ?W) * ?s]) [0..<?H * ?W]"
  proof -
    have "?shifts = map (\<lambda>i. [?fx ! i, ?fy ! i, ?fx ! i, ?fy ! i]) [0..<?H * ?W]"
      by (simp only: transpose4 lfx)
    also have "\<dots> = map (\<lambda>p. [of_nat (p mod ?W) * ?s, of_nat (p div ?W) * ?s,
                                  of_nat (p mod ?W) * ?s, of_nat (p div ?W) * ?s]) [0..<?H * ?W]"
    proof (rule map_cong[OF refl])
      fix p assume "p \<in> set [0..<?H * ?W]"
      then have p: "p < ?H * ?W" by simp
      then have w: "0 < ?W" by (cases "?W") auto
      have q: "p div ?W < ?H" using p w by (simp add: less_mult_imp_div_less)
      have x: "?fx ! p = of_nat (p mod ?W) * ?s"
        using p w by (subst flat_x_nth) (simp_all add: lx ly tf_range_def)
      have y: "?fy ! p = of_nat (p div ?W) * ?s"
        using p q by (subst flat_y_nth) (simp_all add: lx ly tf_range_def)
      show "[?fx ! p, ?fy ! p, ?fx ! p, ?fy ! p] =
            [of_nat (p mod ?W) * ?s, of_nat (p div ?W) * ?s, of_nat (p mod ?W) * ?s, of_nat (p div ?W) * ?s]"
        by (simp only: x y)
    qed
    finally show ?thesis .
  qed
  have all4: "list_all (\<lambda>row. length row = 4) ?shifts"
    by (simp only: sh) (simp add: list_all_iff)
  have "generate_anchors self fm =
        Inr (reshape_kn_4 (add3 [self_anchor_reference self] (tf_transpose (reshape_1_n_4 ?shifts))))"
    using ref
    by (simp add: generate_anchors_def shape_1_3_nth[OF rank] shape_1_3_nth_Suc[OF rank]
          int32_of_int_ok[OF stride] meshgrid_def reshape_1_k_4_def Let_def)
  also have "\<dots> = Inr (concat (map (\<lambda>r. map (\<lambda>a. map2 (+) (map astype_int32 a) r)
                 (self_anchor_reference self)) ?shifts))"
    by (simp only: transpose1 add3_eq[OF ref all4] reshape_kn_4_def)
  finally show ?thesis
    by (simp only: sh) (simp add: comp_def shift_box_def)
qed

lemma shift_box_4:
  "length box = 4 \<Longrightarrow>
   shift_box box dx dy = [box ! 0 + dx, box ! 1 + dy, box ! 2 + dx, box ! 3 + dy]"
  by (cases box; cases "tl box"; cases "tl (tl box)"; cases "tl (tl (tl box))")
     (auto simp: shift_box_def)

lemma shift_box_0: "length box = 4 \<Longrightarrow> shift_box box 0 0 = box"
  by (cases box; cases "tl box"; cases "tl (tl box)"; cases "tl (tl (tl box))")
     (auto simp: shift_box_def)

lemma sint_int32:
  "- 2147483648 \<le> n \<Longrightarrow> n < 2147483648 \<Longrightarrow> sint (word_of_int n :: 32 word) = n"
  by (simp add: sint_sbintrunc' signed_take_bit_int_eq_self)

lemma astype_int32_whole: "astype_int32 (real_of_int n) = word_of_int n"
  by (simp add: astype_int32_def)

lemma int32_value_D:
  assumes "int32_value x"
  shows "x = real_of_int \<lfloor>x\<rfloor>" "- 2147483648 \<le> \<lfloor>x\<rfloor>" "\<lfloor>x\<rfloor> < 2147483648"
proof -
  show x: "x = real_of_int \<lfloor>x\<rfloor>" using assms by (simp add: int32_value_def)
  have "- 2147483648 \<le> x" "x < 2147483648" using assms by (simp_all add: int32_value_def)
  then show "- 2147483648 \<le> \<lfloor>x\<rfloor>" "\<lfloor>x\<rfloor> < 2147483648" by linarith+
qed

lemma shifted_value:
  assumes "int32_value x" and "int32_value (x + real_of_int (int i * s))"
  shows "real_of_int (sint (astype_int32 x + of_nat i * word_of_int s)) = x + real_of_int (int i * s)"
proof -
  let ?n = "\<lfloor>x\<rfloor>"
  have x: "x = real_of_int ?n" by (rule int32_value_D(1)[OF assms(1)])
  have e: "x + real_of_int (int i * s) = real_of_int (?n + int i * s)" using x by simp
  have fl: "\<lfloor>x + real_of_int (int i * s)\<rfloor> = ?n + int i * s" by (subst e) (rule floor_of_int)
  have r: "- 2147483648 \<le> ?n + int i * s" "?n + int i * s < 2147483648"
    using int32_value_D(2,3)[OF assms(2)] by (simp_all only: fl)
  have "astype_int32 x + of_nat i * word_of_int s = (word_of_int (?n + int i * s) :: 32 word)"
    by (subst x) (simp add: astype_int32_whole)
  then show ?thesis using sint_int32[OF r] e by simp
qed

lemma unshifted_value:
  assumes "int32_value x"
  shows "real_of_int (sint (astype_int32 x)) = x"
  using shifted_value[of x 0 0] assms by simp

lemma cell_index:
  assumes "i < (w::nat)"
  shows "(j * w + i) mod w = i" "(j * w + i) div w = j"
  using assms by simp_all

lemma cell_bound: "i < (w::nat) \<Longrightarrow> j < h \<Longrightarrow> j * w + i < h * w"
proof -
  assume a: "i < w" "j < h"
  then have "j * w + i < j * w + w" by simp
  also have "\<dots> = Suc j * w" by simp
  also have "\<dots> \<le> h * w" using a by (intro mult_le_mono1) simp
  finally show ?thesis .
qed

lemma box_values_whole:
  "list_all int32_value r \<Longrightarrow> box_values (map astype_int32 r) = r"
proof (induction r)
  case Nil
  show ?case by (simp add: box_values_def)
next
  case (Cons x r)
  from Cons.prems have x: "int32_value x" and r: "list_all int32_value r" by simp_all
  have "box_values (map astype_int32 (x # r)) =
          real_of_int (sint (astype_int32 x)) # box_values (map astype_int32 r)"
    by (simp only: box_values_def list.map)
  also have "\<dots> = x # r"
    by (simp only: unshifted_value[OF x] Cons.IH[OF r])
  finally show ?case .
qed

lemma generate_anchors_nth:
  assumes "3 \<le> length (shape fm)"
    and "list_all (\<lambda>row. length row = 4) (self_anchor_reference self)"
    and "- 2147483648 \<le> self_anchor_stride self" and "self_anchor_stride self < 2147483648"
  shows "\<exists>out. generate_anchors self fm = Inr out
      \<and> length out = shape fm ! 2 * (shape fm ! 1) * length (self_anchor_reference self)
      \<and> (\<forall>p a. p < shape fm ! 1 * (shape fm ! 2) \<and> a < length (self_anchor_reference self) \<longrightarrow>
            out ! (p * length (self_anchor_reference self) + a) =
              shift_box (map astype_int32 (self_anchor_reference self ! a))
                (of_nat (p mod (shape fm ! 2)) * word_of_int (self_anchor_stride self))
                (of_nat (p div (shape fm ! 2)) * word_of_int (self_anchor_stride self)))"
proof -
  let ?W = "shape fm ! 2" and ?H = "shape fm ! 1"
  let ?s = "word_of_int (self_anchor_stride self) :: 32 word"
  let ?ref = "self_anchor_reference self"
  let ?g = "\<lambda>p. map (\<lambda>a. shift_box (map astype_int32 a) (of_nat (p mod ?W) * ?s) (of_nat (p div ?W) * ?s)) ?ref"
  let ?out = "concat (map ?g [0..<?H * ?W])"
  have eq: "generate_anchors self fm = Inr ?out"
    by (rule generate_anchors_eq[OF assms])
  have blk: "\<And>x. x \<in> set [0..<?H * ?W] \<Longrightarrow> length (?g x) = length ?ref" by simp
  have "length ?out = length [0..<?H * ?W] * length ?ref"
    by (rule concat_blocks_length[OF blk])
  then have len: "length ?out = ?W * ?H * length ?ref"
    by (simp add: mult.commute)
  have nth: "?out ! (p * length ?ref + a) =
               shift_box (map astype_int32 (?ref ! a)) (of_nat (p mod ?W) * ?s) (of_nat (p div ?W) * ?s)"
    if "p < ?H * ?W" "a < length ?ref" for p a
  proof -
    have p: "p < length [0..<?H * ?W]" using that(1) by simp
    have "?out ! (p * length ?ref + a) = ?g ([0..<?H * ?W] ! p) ! a"
      by (rule concat_blocks_nth[OF blk p that(2)])
    then show ?thesis using that by simp
  qed
  show ?thesis
    by (intro exI[of _ ?out] conjI allI impI, rule eq, rule len, elim conjE, rule nth)
qed

lemma demo_ref_ok: "list_all (\<lambda>row. length row = 4) (self_anchor_reference demo_self)"
  by (simp add: demo_self_def demo_reference_def)

lemma demo_stride_ok:
  "- 2147483648 \<le> self_anchor_stride demo_self" "self_anchor_stride demo_self < 2147483648"
  by (simp_all add: demo_self_def)

text \<open>
  C1 as stated fails for the coordinates. The result is an \<open>int32\<close> tensor: a reference box
  \<open>(-3.5, 2, 18.5, 13)\<close> comes out as \<open>(-3, 2, 18, 13)\<close> at cell \<open>(0, 0)\<close>, and with stride
  \<open>2^30\<close> the shift of cell \<open>(2, 0)\<close> wraps to \<open>-2^31\<close>.
\<close>

theorem generate_anchors_tiling_counterexample:
  "map_sum id (map box_values)
     (generate_anchors (demo_self\<lparr>self_anchor_reference := [[- 7 / 2, 2, 37 / 2, 13]]\<rparr>)
        \<lparr> shape = [1, 1, 1, 512], vals = [] \<rparr>)
     = Inr [[- 3, 2, 18, 13]]
   \<and> map_sum id (map box_values)
     (generate_anchors
        (demo_self\<lparr>self_anchor_stride := 1073741824, self_anchor_reference := [[0, 0, 15, 15]]\<rparr>)
        \<lparr> shape = [1, 1, 3, 512], vals = [] \<rparr>)
     = Inr [[0, 0, 15, 15], [1073741824, 0, 1073741839, 15], [- 2147483648, 0, - 2147483633, 15]]"
proof -
  let ?s1 = "demo_self\<lparr>self_anchor_reference := [[- 7 / 2, 2, 37 / 2, 13]]\<rparr>"
  let ?f1 = "\<lparr> shape = [1, 1, 1, 512], vals = [] \<rparr>"
  let ?s2 = "demo_self\<lparr>self_anchor_stride := 1073741824, self_anchor_reference := [[0, 0, 15, 15]]\<rparr>"
  let ?f2 = "\<lparr> shape = [1, 1, 3, 512], vals = [] \<rparr>"
  have a: "map_sum id (map box_values) (generate_anchors ?s1 ?f1) = Inr [[- 3, 2, 18, 13]]"
    by (subst generate_anchors_eq)
       (simp_all add: demo_self_def shift_box_def astype_int32_def box_values_def)
  have u: "[0..<3] = [0, 1, 2]" by (simp add: upt_rec)
  have b: "map_sum id (map box_values) (generate_anchors ?s2 ?f2)
             = Inr [[0, 0, 15, 15], [1073741824, 0, 1073741839, 15], [- 2147483648, 0, - 2147483633, 15]]"
    by (subst generate_anchors_eq)
       (simp_all add: demo_self_def shift_box_def astype_int32_def box_values_def u)
  from a b show ?thesis by (rule conjI)
qed

text \<open>
  C1, amended. For a feature map whose grid has width \<open>W\<close> and height \<open>H\<close>, a reference set
  of \<open>k\<close> anchors and a stride that fits 32 bits, \<open>_generate_anchors\<close> returns exactly
  \<open>W * H * k\<close> boxes; the box of anchor \<open>a\<close> at grid cell \<open>(i, j)\<close> is the reference box with
  \<open>(i * stride, j * stride)\<close> added to \<open>(x1, y1)\<close> and to \<open>(x2, y2)\<close> whenever the reference
  coordinates are whole numbers and they and the shifted coordinates fit a signed 32-bit
  integer.
\<close>

theorem generate_anchors_tiling:
  assumes "3 \<le> length (shape fm)"
    and "list_all (\<lambda>row. length row = 4) (self_anchor_reference self)"
    and "- 2147483648 \<le> self_anchor_stride self" and "self_anchor_stride self < 2147483648"
  shows "\<exists>out. generate_anchors self fm = Inr out
      \<and> length out = shape fm ! 2 * (shape fm ! 1) * length (self_anchor_reference self)
      \<and> (\<forall>i j a. i < shape fm ! 2 \<and> j < shape fm ! 1 \<and> a < length (self_anchor_reference self)
            \<and> list_all int32_value (self_anchor_reference self ! a)
            \<and> list_all int32_value
                 [self_anchor_reference self ! a ! 0 + real_of_int (int i * self_anchor_stride self),
                  self_anchor_reference self ! a ! 1 + real_of_int (int j * self_anchor_stride self),
                  self_anchor_reference self ! a ! 2 + real_of_int (int i * self_anchor_stride self),
                  self_anchor_reference self ! a ! 3 + real_of_int (int j * self_anchor_stride self)]
          \<longrightarrow>
            box_values (out ! ((j * (shape fm ! 2) + i) * length (self_anchor_reference self) + a)) =
              [self_anchor_reference self ! a ! 0 + real_of_int (int i * self_anchor_stride self),
               self_anchor_reference self ! a ! 1 + real_of_int (int j * self_anchor_stride self),
               self_anchor_reference self ! a ! 2 + real_of_int (int i * self_anchor_stride self),
               self_anchor_reference self ! a ! 3 + real_of_int (int j * self_anchor_stride self)])"
proof -
  let ?W = "shape fm ! 2" and ?H = "shape fm ! 1" and ?s = "self_anchor_stride self"
  let ?ref = "self_anchor_reference self"
  from generate_anchors_nth[OF assms] obtain out where
    eq: "generate_anchors self fm = Inr out"
    and len: "length out = ?W * ?H * length ?ref"
    and nth: "\<forall>p a. p < ?H * ?W \<and> a < length ?ref \<longrightarrow>
            out ! (p * length ?ref + a) =
              shift_box (map astype_int32 (?ref ! a))
                (of_nat (p mod ?W) * word_of_int ?s) (of_nat (p div ?W) * word_of_int ?s)"
    by (elim exE conjE)
  have val: "box_values (out ! ((j * ?W + i) * length ?ref + a)) =
              [?ref ! a ! 0 + real_of_int (int i * ?s), ?ref ! a ! 1 + real_of_int (int j * ?s),
               ?ref ! a ! 2 + real_of_int (int i * ?s), ?ref ! a ! 3 + real_of_int (int j * ?s)]"
    if h: "i < ?W" "j < ?H" "a < length ?ref" "list_all int32_value (?ref ! a)"
      "list_all int32_value
         [?ref ! a ! 0 + real_of_int (int i * ?s), ?ref ! a ! 1 + real_of_int (int j * ?s),
          ?ref ! a ! 2 + real_of_int (int i * ?s), ?ref ! a ! 3 + real_of_int (int j * ?s)]"
    for i j a
  proof -
    have p: "j * ?W + i < ?H * ?W" by (rule cell_bound[OF h(1,2)])
    have l4: "length (?ref ! a) = 4" using assms(2) h(3) by (simp add: list_all_length)
    have l4': "length (map astype_int32 (?ref ! a)) = 4" using l4 by simp
    have v: "int32_value (?ref ! a ! 0)" "int32_value (?ref ! a ! 1)"
      "int32_value (?ref ! a ! 2)" "int32_value (?ref ! a ! 3)"
      using h(4) l4 by (simp_all add: list_all_length)
    have "out ! ((j * ?W + i) * length ?ref + a) =
            shift_box (map astype_int32 (?ref ! a)) (of_nat i * word_of_int ?s) (of_nat j * word_of_int ?s)"
      using nth p h(1,3) by (simp add: cell_index)
    also have "\<dots> = [astype_int32 (?ref ! a ! 0) + of_nat i * word_of_int ?s,
                      astype_int32 (?ref ! a ! 1) + of_nat j * word_of_int ?s,
                      astype_int32 (?ref ! a ! 2) + of_nat i * word_of_int ?s,
                      astype_int32 (?ref ! a ! 3) + of_nat j * word_of_int ?s]"
      using l4 by (simp add: shift_box_4[OF l4'])
    finally have o: "out ! ((j * ?W + i) * length ?ref + a) =
                     [astype_int32 (?ref ! a ! 0) + of_nat i * word_of_int ?s,
                      astype_int32 (?ref ! a ! 1) + of_nat j * word_of_int ?s,
                      astype_int32 (?ref ! a ! 2) + of_nat i * word_of_int ?s,
                      astype_int32 (?ref ! a ! 3) + of_nat j * word_of_int ?s]" .
    from h(5) have
      w: "int32_value (?ref ! a ! 0 + real_of_int (int i * ?s))"
         "int32_value (?ref ! a ! 1 + real_of_int (int j * ?s))"
         "int32_value (?ref ! a ! 2 + real_of_int (int i * ?s))"
         "int32_value (?ref ! a ! 3 + real_of_int (int j * ?s))"
      by (simp_all only: list.pred_inject simp_thms)
    show ?thesis
      by (simp only: o box_values_def list.map
            shifted_value[OF v(1) w(1)] shifted_value[OF v(2) w(2)]
            shifted_value[OF v(3) w(3)] shifted_value[OF v(4) w(4)])
  qed
  show ?thesis
    by (intro exI[of _ out] conjI allI impI, rule eq, rule len, elim conjE, rule val)
qed

text \<open>
  The instance of the end-to-end scenario: a \<open>14 x 14\<close> grid, stride 16 and nine reference
  anchors give \<open>14 * 14 * 9 = 1764\<close> boxes; the box of anchor 4 at cell \<open>(3, 2)\<close> is anchor 4
  moved by \<open>(48, 32)\<close>.
\<close>

theorem generate_anchors_tiling_witness:
  "\<exists>out. generate_anchors demo_self demo_feature_map = Inr out
      \<and> length out = 1764
      \<and> box_values (out ! ((2 * 14 + 3) * 9 + 4)) = [- 120 + 48, - 120 + 32, 135 + 48, 135 + 32]"
proof -
  have r: "3 \<le> length (shape demo_feature_map)" by (simp add: demo_feature_map_def)
  from generate_anchors_tiling[OF r demo_ref_ok demo_stride_ok] obtain out where
    o: "generate_anchors demo_self demo_feature_map = Inr out"
    and l: "length out = shape demo_feature_map ! 2 * (shape demo_feature_map ! 1)
                * length (self_anchor_reference demo_self)"
    and n: "\<forall>i j a. i < shape demo_feature_map ! 2 \<and> j < shape demo_feature_map ! 1
            \<and> a < length (self_anchor_reference demo_self)
            \<and> list_all int32_value (self_anchor_reference demo_self ! a)
            \<and> list_all int32_value
                 [self_anchor_reference demo_self ! a ! 0 + real_of_int (int i * self_anchor_stride demo_self),
                  self_anchor_reference demo_self ! a ! 1 + real_of_int (int j * self_anchor_stride demo_self),
                  self_anchor_reference demo_self ! a ! 2 + real_of_int (int i * self_anchor_stride demo_self),
                  self_anchor_reference demo_self ! a ! 3 + real_of_int (int j * self_anchor_stride demo_self)]
          \<longrightarrow>
            box_values (out ! ((j * (shape demo_feature_map ! 2) + i)
                                 * length (self_anchor_reference demo_self) + a)) =
              [self_anchor_reference demo_self ! a ! 0 + real_of_int (int i * self_anchor_stride demo_self),
               self_anchor_reference demo_self ! a ! 1 + real_of_int (int j * self_anchor_stride demo_self),
               self_anchor_reference demo_self ! a ! 2 + real_of_int (int i * self_anchor_stride demo_self),
               self_anchor_reference demo_self ! a ! 3 + real_of_int (int j * self_anchor_stride demo_self)]"
    by (elim exE conjE)
  have l': "length out = 1764"
    using l by (simp add: demo_feature_map_def demo_self_def demo_reference_def)
  have "box_values (out ! ((2 * 14 + 3) * 9 + 4)) = [- 120 + 48, - 120 + 32, 135 + 48, 135 + 32]"
    using n[rule_format, of 3 2 4]
    by (simp add: demo_feature_map_def demo_self_def demo_reference_def int32_value_def)
  with o l' show ?thesis by (intro exI[of _ out]) simp
qed

text \<open>
  C2 as stated fails in its consequence: the first box need not equal the first reference
  anchor. A reference box \<open>(0.5, 0.5, 15.5, 15.5)\<close> comes out as \<open>(0, 0, 15, 15)\<close>.
\<close>

theorem generate_anchors_first_box_counterexample:
  "map_sum id (map box_values)
     (generate_anchors (demo_self\<lparr>self_anchor_reference := [[1 / 2, 1 / 2, 31 / 2, 31 / 2]]\<rparr>)
        \<lparr> shape = [1, 1, 1, 512], vals = [] \<rparr>)
     = Inr [[0, 0, 15, 15]]
   \<and> [[0, 0, 15, 15]] \<noteq> self_anchor_reference
         (demo_self\<lparr>self_anchor_reference := [[1 / 2, 1 / 2, 31 / 2, 31 / 2]]\<rparr>)"
proof -
  let ?s1 = "demo_self\<lparr>self_anchor_reference := [[1 / 2, 1 / 2, 31 / 2, 31 / 2]]\<rparr>"
  let ?f1 = "\<lparr> shape = [1, 1, 1, 512], vals = [] \<rparr>"
  have a: "map_sum id (map box_values) (generate_anchors ?s1 ?f1) = Inr [[0, 0, 15, 15]]"
    by (subst generate_anchors_eq)
       (simp_all add: demo_self_def shift_box_def astype_int32_def box_values_def)
  then show ?thesis by simp
qed

text \<open>
  C2, amended. The output is ordered cell-major, then by anchor index within the cell: for
  every cell \<open>p\<close> (column \<open>p mod W\<close>, row \<open>p div W\<close>) and anchor index \<open>a\<close>, the box at index
  \<open>p * k + a\<close> is the box at index \<open>a\<close> shifted, in 32-bit arithmetic, by the offset of cell
  \<open>p\<close>. On a grid that is not empty the box at index \<open>i < k\<close>, which belongs to cell \<open>(0, 0)\<close>,
  is the unshifted reference anchor \<open>i\<close> whenever its coordinates are whole numbers that fit
  a signed 32-bit integer.
\<close>

theorem generate_anchors_cell_major:
  assumes "3 \<le> length (shape fm)"
    and "list_all (\<lambda>row. length row = 4) (self_anchor_reference self)"
    and "- 2147483648 \<le> self_anchor_stride self" and "self_anchor_stride self < 2147483648"
  shows "\<exists>out. generate_anchors self fm = Inr out
      \<and> (\<forall>p a. p < shape fm ! 1 * (shape fm ! 2) \<and> a < length (self_anchor_reference self) \<longrightarrow>
            out ! (p * length (self_anchor_reference self) + a) =
              shift_box (out ! a)
                (of_nat (p mod (shape fm ! 2)) * word_of_int (self_anchor_stride self))
                (of_nat (p div (shape fm ! 2)) * word_of_int (self_anchor_stride self)))
      \<and> (0 < shape fm ! 1 \<and> 0 < shape fm ! 2 \<longrightarrow>
            (\<forall>i. i < length (self_anchor_reference self)
                  \<and> list_all int32_value (self_anchor_reference self ! i) \<longrightarrow>
               box_values (out ! i) = self_anchor_reference self ! i))"
proof -
  let ?W = "shape fm ! 2" and ?H = "shape fm ! 1" and ?s = "self_anchor_stride self"
  let ?ref = "self_anchor_reference self"
  from generate_anchors_nth[OF assms] obtain out where
    eq: "generate_anchors self fm = Inr out"
    and nth: "\<forall>p a. p < ?H * ?W \<and> a < length ?ref \<longrightarrow>
            out ! (p * length ?ref + a) =
              shift_box (map astype_int32 (?ref ! a))
                (of_nat (p mod ?W) * word_of_int ?s) (of_nat (p div ?W) * word_of_int ?s)"
    by (elim exE conjE)
  have first: "out ! a = map astype_int32 (?ref ! a)" if "0 < ?H * ?W" "a < length ?ref" for a
  proof -
    have l4: "length (map astype_int32 (?ref ! a)) = 4"
      using assms(2) that(2) by (simp add: list_all_length)
    from nth that have "out ! (0 * length ?ref + a) =
        shift_box (map astype_int32 (?ref ! a))
          (of_nat (0 mod ?W) * word_of_int ?s) (of_nat (0 div ?W) * word_of_int ?s)"
      by blast
    then show ?thesis by (simp add: shift_box_0[OF l4])
  qed
  have order: "out ! (p * length ?ref + a) =
              shift_box (out ! a) (of_nat (p mod ?W) * word_of_int ?s) (of_nat (p div ?W) * word_of_int ?s)"
    if "p < ?H * ?W" "a < length ?ref" for p a
  proof -
    have "0 < ?H * ?W" using that(1) by (rule order.strict_trans1[rotated]) simp
    from first[OF this that(2)] nth that show ?thesis by simp
  qed
  have unshifted: "box_values (out ! i) = ?ref ! i"
    if "0 < ?H" "0 < ?W" "i < length ?ref" "list_all int32_value (?ref ! i)" for i
  proof -
    have "0 < ?H * ?W" using that(1,2) by simp
    from first[OF this that(3)] show ?thesis by (simp only: box_values_whole[OF that(4)])
  qed
  show ?thesis
  proof (intro exI[of _ out] conjI allI impI)
    show "generate_anchors self fm = Inr out" by (rule eq)
  next
    fix p a assume "p < ?H * ?W \<and> a < length ?ref"
    then show "out ! (p * length ?ref + a) =
              shift_box (out ! a) (of_nat (p mod ?W) * word_of_int ?s) (of_nat (p div ?W) * word_of_int ?s)"
      by (elim conjE) (rule order)
  next
    fix i assume "0 < ?H \<and> 0 < ?W" and "i < length ?ref \<and> list_all int32_value (?ref ! i)"
    then show "box_values (out ! i) = ?ref ! i"
      by (elim conjE) (rule unshifted)
  qed
qed

theorem generate_anchors_cell_major_witness:
  "\<exists>out. generate_anchors demo_self demo_feature_map = Inr out
      \<and> out ! (31 * 9 + 4) = shift_box (out ! 4) (3 * 16) (2 * 16)
      \<and> box_values (out ! 4) = [- 120, - 120, 135, 135]"
proof -
  have r: "3 \<le> length (shape demo_feature_map)" by (simp add: demo_feature_map_def)
  from generate_anchors_cell_major[OF r demo_ref_ok demo_stride_ok] obtain out where
    o: "generate_anchors demo_self demo_feature_map = Inr out"
    and n: "\<forall>p a. p < shape demo_feature_map ! 1 * (shape demo_feature_map ! 2)
              \<and> a < length (self_anchor_reference demo_self) \<longrightarrow>
            out ! (p * length (self_anchor_reference demo_self) + a) =
              shift_box (out ! a)
                (of_nat (p mod (shape demo_feature_map ! 2)) * word_of_int (self_anchor_stride demo_self))
                (of_nat (p div (shape demo_feature_map ! 2)) * word_of_int (self_anchor_stride demo_self))"
    and f: "0 < shape demo_feature_map ! 1 \<and> 0 < shape demo_feature_map ! 2 \<longrightarrow>
            (\<forall>i. i < length (self_anchor_reference demo_self)
                  \<and> list_all int32_value (self_anchor_reference demo_self ! i) \<longrightarrow>
               box_values (out ! i) = self_anchor_reference demo_self ! i)"
    by (elim exE conjE)
  have a: "out ! (31 * 9 + 4) = shift_box (out ! 4) (3 * 16) (2 * 16)"
    using n[rule_format, of 31 4] by (simp add: demo_feature_map_def demo_self_def demo_reference_def)
  have b: "box_values (out ! 4) = [- 120, - 120, 135, 135]"
    using f[rule_format, of 4]
    by (simp add: demo_feature_map_def demo_self_def demo_reference_def int32_value_def)
  from o a b show ?thesis by (intro exI[of _ out]) simp
qed

lemma generate_anchors_shape_only:
  assumes "shape_1_3 fm1 = shape_1_3 fm2"
  shows "generate_anchors self fm1 = generate_anchors self fm2"
  by (simp add: generate_anchors_def assms)

lemma shape_1_3_eq:
  assumes "3 \<le> length (shape fm1)" "3 \<le> length (shape fm2)"
    and "shape fm1 ! 1 = shape fm2 ! 1" "shape fm1 ! 2 = shape fm2 ! 2"
  shows "shape_1_3 fm1 = shape_1_3 fm2"
  unfolding shape_1_3_def using assms
  by (intro nth_equalityI) (auto simp: less_Suc_eq numeral_2_eq_2)


section \<open>Properties of the forward pass\<close>

lemma generate_anchors_Inr_D:
  assumes "generate_anchors self fm = Inr anchors"
  shows "3 \<le> length (shape fm) \<and> list_all (\<lambda>row. length row = 4) (self_anchor_reference self)"
proof -
  have "1 < length (shape_1_3 fm)"
    using assms by (auto simp: generate_anchors_def getitem_def Let_def split: if_splits sum.splits)
  then have "3 \<le> length (shape fm)" by (simp add: shape_1_3_def)
  moreover have "list_all (\<lambda>row. length row = 4) (self_anchor_reference self)"
    using assms
    by (auto simp: generate_anchors_def reshape_1_k_4_def Let_def split: sum.splits if_splits prod.splits)
  ultimately show ?thesis by simp
qed

lemma build_eq:
  assumes "generate_anchors self (VGG_call env (self_pretrained self) img) = Inr anchors"
    and "RPN_call env (self_rpn self) (VGG_call env (self_pretrained self) img) gt
           (shape_1_3 img) anchors tr ''proposals'' = Some props"
  shows "build env self img gt tr g =
     Inr (\<lparr> image_shape = shape_1_3 img,
            all_anchors = anchors,
            rpn_prediction = RPN_call env (self_rpn self) (VGG_call env (self_pretrained self) img)
                               gt (shape_1_3 img) anchors tr,
            classification_prediction =
              RCNN_call env (self_rcnn self)
                (ROIPoolingLayer_call env (self_roi_pool self) props
                   (VGG_call env (self_pretrained self) img)) props gt,
            roi_pool = ROIPoolingLayer_call env (self_roi_pool self) props
                         (VGG_call env (self_pretrained self) img),
            gt_boxes = gt,
            rpn_drawn_image = draw_bboxes env img props \<rparr>,
          summary_image ''top_10_rpn_boxes'' (draw_bboxes env img props)
            (summary_image ''image'' img g))"
  using assms by (simp add: build_def Let_def)

lemma build_Inr_D:
  assumes "build env self img gt tr g = Inr (pd, h)"
  shows "\<exists>anchors props.
      generate_anchors self (VGG_call env (self_pretrained self) img) = Inr anchors
    \<and> RPN_call env (self_rpn self) (VGG_call env (self_pretrained self) img) gt
           (shape_1_3 img) anchors tr ''proposals'' = Some props"
  using assms by (auto simp: build_def Let_def split: sum.splits option.splits)

lemma build_all_anchors:
  assumes "build env self img gt tr g = Inr (pd, h)"
  shows "generate_anchors self (VGG_call env (self_pretrained self) img) = Inr (all_anchors pd)"
  using assms by (auto simp: build_def Let_def split: sum.splits option.splits)

lemma demo_vgg: "VGG_call demo_env (self_pretrained demo_self) demo_image = demo_feature_map"
  by (simp add: demo_env_def demo_image_def demo_feature_map_def)

lemma demo_vgg2: "VGG_call demo_env (self_pretrained demo_self) demo_image2 = \<lparr> shape = [2, 14, 14, 512], vals = [] \<rparr>"
  by (simp add: demo_env_def demo_image2_def)

lemma demo_rpn: "RPN_call demo_env r fm gt s a tr ''proposals'' = Some demo_proposals"
  by (simp add: demo_env_def)

lemma demo_build_ok:
  assumes "3 \<le> length (shape (VGG_call demo_env (self_pretrained demo_self) img))"
  shows "\<exists>pd h. build demo_env demo_self img gt tr g = Inr (pd, h)"
proof -
  from generate_anchors_eq[OF assms demo_ref_ok demo_stride_ok] obtain anchors where
    a: "generate_anchors demo_self (VGG_call demo_env (self_pretrained demo_self) img) = Inr anchors"
    by blast
  show ?thesis using build_eq[OF a demo_rpn] by blast
qed

text \<open>
  C6. The anchors are a function of the feature map's height and width alone: two feature
  maps that agree on both give the same result, whatever their batch size, channels and
  contents; and two forward passes whose feature maps are these return the same anchors,
  whatever the images, ground truth, training flag and global graph.
\<close>

theorem anchors_function_of_grid_shape:
  assumes "3 \<le> length (shape fm1)" "3 \<le> length (shape fm2)"
    and "shape fm1 ! 1 = shape fm2 ! 1" "shape fm1 ! 2 = shape fm2 ! 2"
  shows "generate_anchors self fm1 = generate_anchors self fm2
     \<and> (\<forall>env1 env2 img1 img2 gt1 gt2 tr1 tr2 g1 g2 pd1 pd2 h1 h2.
           VGG_call env1 (self_pretrained self) img1 = fm1
         \<and> VGG_call env2 (self_pretrained self) img2 = fm2
         \<and> build env1 self img1 gt1 tr1 g1 = Inr (pd1, h1)
         \<and> build env2 self img2 gt2 tr2 g2 = Inr (pd2, h2)
         \<longrightarrow> all_anchors (pd1 :: 'a prediction_dict) = all_anchors (pd2 :: 'b prediction_dict))"
proof -
  have eq: "generate_anchors self fm1 = generate_anchors self fm2"
    by (rule generate_anchors_shape_only[OF shape_1_3_eq[OF assms]])
  have "all_anchors pd1 = all_anchors pd2"
    if "VGG_call env1 (self_pretrained self) img1 = fm1"
       "VGG_call env2 (self_pretrained self) img2 = fm2"
       "build env1 self img1 gt1 tr1 g1 = Inr (pd1, h1)"
       "build env2 self img2 gt2 tr2 g2 = Inr (pd2, h2)"
    for env1 :: "'a collaborators" and env2 :: "'b collaborators" and img1 img2 gt1 gt2 tr1 tr2 g1 g2 pd1 pd2 h1 h2
    using build_all_anchors[OF that(3)] build_all_anchors[OF that(4)] that(1,2) eq by simp
  with eq show ?thesis by blast
qed

theorem anchors_function_of_grid_shape_witness:
  "generate_anchors demo_self demo_feature_map
     = generate_anchors demo_self \<lparr> shape = [2, 14, 14, 512], vals = [] \<rparr>
   \<and> map_sum id (all_anchors \<circ> fst) (build demo_env demo_self demo_image demo_gt_boxes True empty_graph)
     = map_sum id (all_anchors \<circ> fst) (build demo_env demo_self demo_image2 demo_proposals False
          (empty_graph\<lparr>losses := [3]\<rparr>))
   \<and> isl (build demo_env demo_self demo_image demo_gt_boxes True empty_graph) = False"
proof -
  let ?fm2 = "\<lparr> shape = [2, 14, 14, 512], vals = [] \<rparr>"
  have h: "3 \<le> length (shape demo_feature_map)" "3 \<le> length (shape ?fm2)"
    "shape demo_feature_map ! 1 = shape ?fm2 ! 1" "shape demo_feature_map ! 2 = shape ?fm2 ! 2"
    by (simp_all add: demo_feature_map_def)
  note t = anchors_function_of_grid_shape[OF h, of demo_self]
  obtain pd1 h1 where b1: "build demo_env demo_self demo_image demo_gt_boxes True empty_graph = Inr (pd1, h1)"
    using demo_build_ok[of demo_image demo_gt_boxes True empty_graph] h(1) by (auto simp: demo_vgg)
  obtain pd2 h2 where b2: "build demo_env demo_self demo_image2 demo_proposals False
          (empty_graph\<lparr>losses := [3]\<rparr>) = Inr (pd2, h2)"
    using demo_build_ok[of demo_image2 demo_proposals False "empty_graph\<lparr>losses := [3]\<rparr>"] h(2)
    by (auto simp: demo_vgg2)
  have e: "generate_anchors demo_self demo_feature_map = generate_anchors demo_self ?fm2"
    using t by (rule conjunct1)
  have "all_anchors pd1 = all_anchors pd2"
    using t demo_vgg demo_vgg2 b1 b2 by blast
  with e b1 b2 show ?thesis by simp
qed

text \<open>
  C5 as stated fails: the shape entry of the bundle is the shape of the input image, not of
  the feature map. With a backbone of stride 16 a \<open>224 x 224\<close> image gives the entry
  \<open>[224, 224]\<close>, while the feature map is \<open>14 x 14\<close>.
\<close>

theorem build_bundle_image_shape_counterexample:
  "map_sum id (image_shape \<circ> fst)
      (build demo_env demo_self demo_image demo_gt_boxes True empty_graph) = Inr [224, 224]
   \<and> shape_1_3 (VGG_call demo_env (self_pretrained demo_self) demo_image) = [14, 14]"
proof -
  have r: "3 \<le> length (shape (VGG_call demo_env (self_pretrained demo_self) demo_image))"
    by (simp add: demo_vgg demo_feature_map_def)
  from generate_anchors_eq[OF r demo_ref_ok demo_stride_ok] obtain anchors where
    a: "generate_anchors demo_self (VGG_call demo_env (self_pretrained demo_self) demo_image) = Inr anchors"
    by blast
  have "map_sum id (image_shape \<circ> fst)
      (build demo_env demo_self demo_image demo_gt_boxes True empty_graph) = Inr (shape_1_3 demo_image)"
    by (simp add: build_eq[OF a demo_rpn])
  moreover have "shape_1_3 demo_image = [224, 224]"
    by (simp add: shape_1_3_def demo_image_def)
  moreover have "shape_1_3 (VGG_call demo_env (self_pretrained demo_self) demo_image) = [14, 14]"
    by (simp add: demo_vgg demo_feature_map_def shape_1_3_def)
  ultimately show ?thesis by simp
qed

text \<open>
  C5, amended. Whenever the forward pass returns, its bundle holds the height and width of
  the input image (not of the feature map), the generated anchors, the RPN's output, the
  pooled features, the RCNN head's output, the drawn image, and the ground-truth boxes
  exactly as they were passed in. It returns exactly when the anchor generator returns, for
  which the feature map must have at least three axes and every reference row four entries,
  and the RPN's output has an entry \<open>'proposals'\<close>.
\<close>

theorem build_bundle:
  "(\<forall>pd h. build env self img gt tr g = Inr (pd, h) \<longrightarrow>
       image_shape pd = shape_1_3 img
     \<and> generate_anchors self (VGG_call env (self_pretrained self) img) = Inr (all_anchors pd)
     \<and> rpn_prediction pd =
         RPN_call env (self_rpn self) (VGG_call env (self_pretrained self) img) gt
           (shape_1_3 img) (all_anchors pd) tr
     \<and> (\<exists>props. rpn_prediction pd ''proposals'' = Some props
           \<and> roi_pool pd = ROIPoolingLayer_call env (self_roi_pool self) props
                             (VGG_call env (self_pretrained self) img)
           \<and> classification_prediction pd = RCNN_call env (self_rcnn self) (roi_pool pd) props gt
           \<and> rpn_drawn_image pd = draw_bboxes env img props)
     \<and> gt_boxes pd = gt)
   \<and> ((\<exists>pd h. build env self img gt tr g = Inr (pd, h)) =
        (3 \<le> length (shape (VGG_call env (self_pretrained self) img))
         \<and> list_all (\<lambda>row. length row = 4) (self_anchor_reference self)
         \<and> (\<exists>anchors props.
               generate_anchors self (VGG_call env (self_pretrained self) img) = Inr anchors
             \<and> RPN_call env (self_rpn self) (VGG_call env (self_pretrained self) img) gt
                  (shape_1_3 img) anchors tr ''proposals'' = Some props)))"
proof -
  let ?fm = "VGG_call env (self_pretrained self) img"
  have content: "image_shape pd = shape_1_3 img
     \<and> generate_anchors self ?fm = Inr (all_anchors pd)
     \<and> rpn_prediction pd = RPN_call env (self_rpn self) ?fm gt (shape_1_3 img) (all_anchors pd) tr
     \<and> (\<exists>props. rpn_prediction pd ''proposals'' = Some props
           \<and> roi_pool pd = ROIPoolingLayer_call env (self_roi_pool self) props ?fm
           \<and> classification_prediction pd = RCNN_call env (self_rcnn self) (roi_pool pd) props gt
           \<and> rpn_drawn_image pd = draw_bboxes env img props)
     \<and> gt_boxes pd = gt"
    if b: "build env self img gt tr g = Inr (pd, h)" for pd h
  proof -
    from build_Inr_D[OF b] obtain anchors props where
      a: "generate_anchors self ?fm = Inr anchors"
      and p: "RPN_call env (self_rpn self) ?fm gt (shape_1_3 img) anchors tr ''proposals'' = Some props"
      by (elim exE conjE)
    from b build_eq[OF a p, of g] have
      pd: "pd = \<lparr> image_shape = shape_1_3 img, all_anchors = anchors,
              rpn_prediction = RPN_call env (self_rpn self) ?fm gt (shape_1_3 img) anchors tr,
              classification_prediction =
                RCNN_call env (self_rcnn self)
                  (ROIPoolingLayer_call env (self_roi_pool self) props ?fm) props gt,
              roi_pool = ROIPoolingLayer_call env (self_roi_pool self) props ?fm,
              gt_boxes = gt,
              rpn_drawn_image = draw_bboxes env img props \<rparr>"
      by simp
    show ?thesis
      by (simp add: pd a p)
  qed
  have returns: "(\<exists>pd h. build env self img gt tr g = Inr (pd, h)) =
        (3 \<le> length (shape ?fm)
         \<and> list_all (\<lambda>row. length row = 4) (self_anchor_reference self)
         \<and> (\<exists>anchors props. generate_anchors self ?fm = Inr anchors
             \<and> RPN_call env (self_rpn self) ?fm gt (shape_1_3 img) anchors tr ''proposals'' = Some props))"
  proof
    assume "\<exists>pd h. build env self img gt tr g = Inr (pd, h)"
    then obtain pd h where b: "build env self img gt tr g = Inr (pd, h)" by (elim exE)
    from build_Inr_D[OF b] obtain anchors props where
      a: "generate_anchors self ?fm = Inr anchors"
      and p: "RPN_call env (self_rpn self) ?fm gt (shape_1_3 img) anchors tr ''proposals'' = Some props"
      by (elim exE conjE)
    from generate_anchors_Inr_D[OF a] a p
    show "3 \<le> length (shape ?fm)
         \<and> list_all (\<lambda>row. length row = 4) (self_anchor_reference self)
         \<and> (\<exists>anchors props. generate_anchors self ?fm = Inr anchors
             \<and> RPN_call env (self_rpn self) ?fm gt (shape_1_3 img) anchors tr ''proposals'' = Some props)"
      by (intro conjI exI[of _ anchors] exI[of _ props]) simp_all
  next
    assume "3 \<le> length (shape ?fm)
         \<and> list_all (\<lambda>row. length row = 4) (self_anchor_reference self)
         \<and> (\<exists>anchors props. generate_anchors self ?fm = Inr anchors
             \<and> RPN_call env (self_rpn self) ?fm gt (shape_1_3 img) anchors tr ''proposals'' = Some props)"
    then obtain anchors props where
      a: "generate_anchors self ?fm = Inr anchors"
      and p: "RPN_call env (self_rpn self) ?fm gt (shape_1_3 img) anchors tr ''proposals'' = Some props"
      by (elim exE conjE)
    from build_eq[OF a p, of g] show "\<exists>pd h. build env self img gt tr g = Inr (pd, h)"
      by (intro exI)
  qed
  show ?thesis
  proof (rule conjI)
    show "\<forall>pd h. build env self img gt tr g = Inr (pd, h) \<longrightarrow>
       image_shape pd = shape_1_3 img
     \<and> generate_anchors self ?fm = Inr (all_anchors pd)
     \<and> rpn_prediction pd = RPN_call env (self_rpn self) ?fm gt (shape_1_3 img) (all_anchors pd) tr
     \<and> (\<exists>props. rpn_prediction pd ''proposals'' = Some props
           \<and> roi_pool pd = ROIPoolingLayer_call env (self_roi_pool self) props ?fm
           \<and> classification_prediction pd = RCNN_call env (self_rcnn self) (roi_pool pd) props gt
           \<and> rpn_drawn_image pd = draw_bboxes env img props)
     \<and> gt_boxes pd = gt"
      by (intro allI impI) (rule content)
  qed (rule returns)
qed

theorem build_bundle_witness:
  "\<exists>pd h. build demo_env demo_self demo_image demo_gt_boxes True empty_graph = Inr (pd, h)
     \<and> image_shape pd = [224, 224]
     \<and> generate_anchors demo_self demo_feature_map = Inr (all_anchors pd)
     \<and> rpn_prediction pd ''proposals'' = Some demo_proposals
     \<and> roi_pool pd = \<lparr> shape = [1, 7, 7, 512], vals = [96, 96, 208, 208] \<rparr>
     \<and> classification_prediction pd = \<lparr> shape = [1, 21], vals = [96, 96, 208, 208, 100, 100, 200, 200] \<rparr>
     \<and> rpn_drawn_image pd = demo_image
     \<and> gt_boxes pd = demo_gt_boxes"
proof -
  let ?fm = "VGG_call demo_env (self_pretrained demo_self) demo_image"
  note t = build_bundle[of demo_env demo_self demo_image demo_gt_boxes True empty_graph]
  have r: "3 \<le> length (shape ?fm)" by (simp add: demo_vgg demo_feature_map_def)
  from generate_anchors_eq[OF r demo_ref_ok demo_stride_ok] obtain anchors where
    a: "generate_anchors demo_self ?fm = Inr anchors" by (elim exE conjE | rule that)+
  have "\<exists>anchors props. generate_anchors demo_self ?fm = Inr anchors
       \<and> RPN_call demo_env (self_rpn demo_self) ?fm demo_gt_boxes (shape_1_3 demo_image) anchors True
            ''proposals'' = Some props"
    using a by (intro exI[of _ anchors] exI[of _ demo_proposals]) (simp add: demo_rpn)
  with r demo_ref_ok t have "\<exists>pd h. build demo_env demo_self demo_image demo_gt_boxes True empty_graph = Inr (pd, h)"
    by simp
  then obtain pd h where
    b: "build demo_env demo_self demo_image demo_gt_boxes True empty_graph = Inr (pd, h)"
    by (elim exE)
  have c: "image_shape pd = shape_1_3 demo_image
     \<and> generate_anchors demo_self ?fm = Inr (all_anchors pd)
     \<and> rpn_prediction pd = RPN_call demo_env (self_rpn demo_self) ?fm demo_gt_boxes
          (shape_1_3 demo_image) (all_anchors pd) True
     \<and> (\<exists>props. rpn_prediction pd ''proposals'' = Some props
           \<and> roi_pool pd = ROIPoolingLayer_call demo_env (self_roi_pool demo_self) props ?fm
           \<and> classification_prediction pd = RCNN_call demo_env (self_rcnn demo_self) (roi_pool pd) props demo_gt_boxes
           \<and> rpn_drawn_image pd = draw_bboxes demo_env demo_image props)
     \<and> gt_boxes pd = demo_gt_boxes"
    by (rule conjunct1[OF t, THEN spec, THEN spec, THEN mp, OF b])
  then obtain props where
    f: "image_shape pd = shape_1_3 demo_image"
       "generate_anchors demo_self ?fm = Inr (all_anchors pd)"
       "rpn_prediction pd = RPN_call demo_env (self_rpn demo_self) ?fm demo_gt_boxes
          (shape_1_3 demo_image) (all_anchors pd) True"
       "rpn_prediction pd ''proposals'' = Some props"
       "roi_pool pd = ROIPoolingLayer_call demo_env (self_roi_pool demo_self) props ?fm"
       "classification_prediction pd = RCNN_call demo_env (self_rcnn demo_self) (roi_pool pd) props demo_gt_boxes"
       "rpn_drawn_image pd = draw_bboxes demo_env demo_image props"
       "gt_boxes pd = demo_gt_boxes"
    by (elim exE conjE)
  have s: "shape_1_3 demo_image = [224, 224]" by (simp add: shape_1_3_def demo_image_def)
  have pr: "props = demo_proposals" using f(3,4) by (simp add: demo_rpn)
  have pv: "vals demo_proposals = [96, 96, 208, 208]" "vals demo_gt_boxes = [100, 100, 200, 200]"
    by (simp_all add: demo_proposals_def demo_gt_boxes_def)
  have "image_shape pd = [224, 224]" using f(1) s by simp
  moreover have "generate_anchors demo_self demo_feature_map = Inr (all_anchors pd)"
    using f(2) by (simp add: demo_vgg)
  moreover have "rpn_prediction pd ''proposals'' = Some demo_proposals" using f(4) pr by simp
  moreover have "roi_pool pd = \<lparr> shape = [1, 7, 7, 512], vals = [96, 96, 208, 208] \<rparr>"
    using f(5) pr pv by (simp add: demo_env_def)
  moreover have "classification_prediction pd = \<lparr> shape = [1, 21], vals = [96, 96, 208, 208, 100, 100, 200, 200] \<rparr>"
    using f(5,6) pr pv by (simp add: demo_env_def)
  moreover have "rpn_drawn_image pd = demo_image" using f(7) by (simp add: demo_env_def)
  ultimately show ?thesis using b f(8) by (intro exI[of _ pd] exI[of _ h]) simp
qed

text \<open>
  C8. Whenever the forward pass returns, the classification entry of the bundle is exactly
  what the RCNN head returned on the pooled features, the RPN's proposals and the ground
  truth: nothing is applied to it afterwards.
\<close>

theorem build_no_refinement:
  assumes "build env self img gt tr g = Inr (pd, h)"
  shows "\<exists>props. rpn_prediction pd ''proposals'' = Some props
     \<and> roi_pool pd =
         ROIPoolingLayer_call env (self_roi_pool self) props (VGG_call env (self_pretrained self) img)
     \<and> classification_prediction pd = RCNN_call env (self_rcnn self) (roi_pool pd) props (gt_boxes pd)"
proof -
  from build_Inr_D[OF assms] obtain anchors props where
    a: "generate_anchors self (VGG_call env (self_pretrained self) img) = Inr anchors"
    and p: "RPN_call env (self_rpn self) (VGG_call env (self_pretrained self) img) gt
              (shape_1_3 img) anchors tr ''proposals'' = Some props"
    by blast
  from assms build_eq[OF a p, of g] show ?thesis using p by auto
qed

theorem build_no_refinement_witness:
  "\<exists>pd h. build demo_env demo_self demo_image demo_gt_boxes True empty_graph = Inr (pd, h)
     \<and> rpn_prediction pd ''proposals'' = Some demo_proposals
     \<and> classification_prediction pd = \<lparr> shape = [1, 21], vals = [96, 96, 208, 208, 100, 100, 200, 200] \<rparr>"
proof -
  have r: "3 \<le> length (shape (VGG_call demo_env (self_pretrained demo_self) demo_image))"
    by (simp add: demo_vgg demo_feature_map_def)
  from demo_build_ok[OF r] obtain pd h where
    b: "build demo_env demo_self demo_image demo_gt_boxes True empty_graph = Inr (pd, h)"
    by blast
  from build_no_refinement[OF b] obtain props where
    f: "rpn_prediction pd ''proposals'' = Some props"
       "roi_pool pd = ROIPoolingLayer_call demo_env (self_roi_pool demo_self) props
          (VGG_call demo_env (self_pretrained demo_self) demo_image)"
       "classification_prediction pd =
          RCNN_call demo_env (self_rcnn demo_self) (roi_pool pd) props (gt_boxes pd)"
    by blast
  have g: "gt_boxes pd = demo_gt_boxes"
    using b by (auto simp: build_def Let_def split: sum.splits option.splits)
  have pr: "props = demo_proposals"
    using b f(1) by (auto simp: build_def Let_def demo_rpn split: sum.splits option.splits)
  have "classification_prediction pd = \<lparr> shape = [1, 21], vals = [96, 96, 208, 208, 100, 100, 200, 200] \<rparr>"
    using f(2,3) g pr by (simp add: demo_env_def demo_proposals_def demo_gt_boxes_def)
  with b f(1) pr show ?thesis by blast
qed

section \<open>Properties of the joint loss\<close>

lemma foldl_register_loss:
  "foldl register_loss g items =
     g\<lparr>losses := losses g @ map snd items, scalar_summaries := scalar_summaries g @ items\<rparr>"
proof (induction items arbitrary: g)
  case Nil
  show ?case by simp
next
  case (Cons x xs)
  have "foldl register_loss g (x # xs) = foldl register_loss (register_loss g x) xs"
    by simp
  also have "\<dots> = (register_loss g x)\<lparr>losses := losses (register_loss g x) @ map snd xs,
                 scalar_summaries := scalar_summaries (register_loss g x) @ xs\<rparr>"
    by (rule Cons.IH)
  also have "\<dots> = g\<lparr>losses := losses g @ map snd (x # xs),
                 scalar_summaries := scalar_summaries g @ (x # xs)\<rparr>"
    by (simp add: register_loss_def add_loss_def summary_scalar_def)
  finally show ?case .
qed

lemma scale_item_Some:
  "map_of d k = Some v \<Longrightarrow> scale_item k w d = Inr (AList.update k (v * w) d)"
  by (simp add: scale_item_def)

lemma sum_update:
  "map_of d k = Some v \<Longrightarrow>
   sum_list (map snd (AList.update k v' d)) = sum_list (map snd d) - v + (v' :: real)"
  by (induction d) (auto split: if_splits)

lemma map_of_update_other:
  "k' \<noteq> k \<Longrightarrow> map_of (AList.update k v d) k' = map_of d k'"
  by (simp add: update_conv')

lemma dict_two_cases:
  assumes "distinct (map fst d)" "fst ` set d = {k1, k2}" "k1 \<noteq> k2"
    and "map_of d k1 = Some a" "map_of d k2 = Some b"
  shows "d = [(k1, a), (k2, b)] \<or> d = [(k2, b), (k1, a)]"
proof -
  have "card (set (map fst d)) = length (map fst d)" by (rule distinct_card[OF assms(1)])
  moreover have "card (set (map fst d)) = 2" using assms(2,3) by simp
  ultimately have "length d = 2" by simp
  then obtain p q where d: "d = [p, q]"
    by (metis One_nat_def Suc_1 length_0_conv length_Suc_conv)
  obtain x u y v where pq: "p = (x, u)" "q = (y, v)" by (cases p; cases q) auto
  from assms d pq show ?thesis by (auto split: if_splits)
qed

lemma loss_eq:
  assumes "map_of (RPN_loss env (self_rpn self) (rpn_prediction pd)) ''rpn_cls_loss'' = Some a"
    and "map_of (RPN_loss env (self_rpn self) (rpn_prediction pd)) ''rpn_reg_loss'' = Some b"
    and "map_of (RCNN_loss env (self_rcnn self) (classification_prediction pd)) ''rcnn_cls_loss'' = Some c"
    and "map_of (RCNN_loss env (self_rcnn self) (classification_prediction pd)) ''rcnn_reg_loss'' = Some d"
  defines "rpn2 \<equiv> AList.update ''rpn_reg_loss'' (b * self_rpn_reg_loss_weight self)
                     (AList.update ''rpn_cls_loss'' (a * self_rpn_cls_loss_weight self)
                        (RPN_loss env (self_rpn self) (rpn_prediction pd)))"
    and "rcnn2 \<equiv> AList.update ''rcnn_reg_loss'' (d * self_rcnn_reg_loss_weight self)
                     (AList.update ''rcnn_cls_loss'' (c * self_rcnn_cls_loss_weight self)
                        (RCNN_loss env (self_rcnn self) (classification_prediction pd)))"
  shows "loss env self pd g =
     Inr (sum_list (losses g) + sum_list (map snd (rpn2 @ rcnn2)) + sum_list (regularization_losses g),
          g\<lparr>losses := losses g @ map snd (rpn2 @ rcnn2),
            scalar_summaries := scalar_summaries g @ (rpn2 @ rcnn2) @
               [(''total_loss'', sum_list (losses g) + sum_list (map snd (rpn2 @ rcnn2))
                                  + sum_list (regularization_losses g))]\<rparr>)"
proof -
  let ?d1 = "RPN_loss env (self_rpn self) (rpn_prediction pd)"
  let ?d2 = "RCNN_loss env (self_rcnn self) (classification_prediction pd)"
  let ?r1 = "AList.update ''rpn_cls_loss'' (a * self_rpn_cls_loss_weight self) ?d1"
  let ?c1 = "AList.update ''rcnn_cls_loss'' (c * self_rcnn_cls_loss_weight self) ?d2"
  have s1: "scale_item ''rpn_cls_loss'' (self_rpn_cls_loss_weight self) ?d1 = Inr ?r1"
    by (rule scale_item_Some[OF assms(1)])
  have "map_of ?r1 ''rpn_reg_loss'' = Some b"
    using assms(2) by (simp add: map_of_update_other)
  then have s2: "scale_item ''rpn_reg_loss'' (self_rpn_reg_loss_weight self) ?r1 = Inr rpn2"
    unfolding rpn2_def by (rule scale_item_Some)
  have s3: "scale_item ''rcnn_cls_loss'' (self_rcnn_cls_loss_weight self) ?d2 = Inr ?c1"
    by (rule scale_item_Some[OF assms(3)])
  have "map_of ?c1 ''rcnn_reg_loss'' = Some d"
    using assms(4) by (simp add: map_of_update_other)
  then have s4: "scale_item ''rcnn_reg_loss'' (self_rcnn_reg_loss_weight self) ?c1 = Inr rcnn2"
    unfolding rcnn2_def by (rule scale_item_Some)
  have ne: "rpn2 \<noteq> []" by (simp add: rpn2_def)
  show ?thesis
    using ne
    by (simp add: loss_def s1 s2 s3 s4 foldl_register_loss get_total_loss_def summary_scalar_def Let_def)
qed

lemma dict_two_sum:
  assumes "distinct (map fst d)" "fst ` set d = {k1, k2}" "k1 \<noteq> k2"
    and "map_of d k1 = Some a" "map_of d k2 = Some (b :: real)"
  shows "sum_list (map snd d) = a + b"
  using dict_two_cases[OF assms] by auto


lemma weighted_sum:
  assumes "map_of d k1 = Some a" "map_of d k2 = Some (b :: real)" "k1 \<noteq> k2"
  shows "sum_list (map snd (AList.update k2 v2 (AList.update k1 v1 d)))
           = v1 + v2 + (sum_list (map snd d) - a - b)"
proof -
  have "map_of (AList.update k1 v1 d) k2 = Some b"
    using assms(2,3) by (simp add: map_of_update_other)
  from sum_update[OF this] sum_update[OF assms(1)] show ?thesis by simp
qed

lemma demo_losses:
  "RPN_loss demo_env r p = [(''rpn_cls_loss'', 1), (''rpn_reg_loss'', 10)]"
  "RCNN_loss demo_env c q = [(''rcnn_cls_loss'', 100), (''rcnn_reg_loss'', 1000)]"
  by (simp_all add: demo_env_def)

lemma demo_weights:
  "self_rpn_cls_loss_weight demo_self = 1" "self_rpn_reg_loss_weight demo_self = 2"
  "self_rcnn_cls_loss_weight demo_self = 1" "self_rcnn_reg_loss_weight demo_self = 2"
  by (simp_all add: demo_self_def)

text \<open>
  C3 as stated fails: a loss registered in the collection before the call is part of the
  returned total. With component losses 1, 10, 100, 1000 and the weights 1, 2, 1, 2 the
  weighted sum is 2121; with a loss of 5 already in the collection the call returns 2126.
\<close>

theorem loss_total_counterexample:
  "loss demo_env demo_self demo_prediction (empty_graph\<lparr>losses := [5]\<rparr>) =
     Inr (2126,
          \<lparr> losses = [5, 1, 20, 100, 2000], regularization_losses = [],
            scalar_summaries = [(''rpn_cls_loss'', 1), (''rpn_reg_loss'', 20),
                                (''rcnn_cls_loss'', 100), (''rcnn_reg_loss'', 2000),
                                (''total_loss'', 2126)],
            image_summaries = [] \<rparr>)
   \<and> (2126 :: real) \<noteq> 1 * self_rpn_cls_loss_weight demo_self + 10 * self_rpn_reg_loss_weight demo_self
                + 100 * self_rcnn_cls_loss_weight demo_self + 1000 * self_rcnn_reg_loss_weight demo_self"
proof -
  have m: "map_of (RPN_loss demo_env (self_rpn demo_self) (rpn_prediction demo_prediction)) ''rpn_cls_loss'' = Some 1"
    "map_of (RPN_loss demo_env (self_rpn demo_self) (rpn_prediction demo_prediction)) ''rpn_reg_loss'' = Some 10"
    "map_of (RCNN_loss demo_env (self_rcnn demo_self) (classification_prediction demo_prediction)) ''rcnn_cls_loss'' = Some 100"
    "map_of (RCNN_loss demo_env (self_rcnn demo_self) (classification_prediction demo_prediction)) ''rcnn_reg_loss'' = Some 1000"
    by (simp_all add: demo_losses)
  show ?thesis
    by (simp add: loss_eq[OF m] demo_losses demo_weights empty_graph_def)
qed

text \<open>
  C3, amended. When both loss dictionaries hold their two named entries, \<open>loss\<close> returns one
  scalar: the sum of the losses and regularization losses registered before the call and of
  every entry of the two dictionaries, the four named entries each multiplied by its weight.
  It is the weighted sum of the four alone when nothing was registered before and the
  dictionaries hold no other entry.
\<close>

theorem loss_total:
  assumes "RPN_loss env (self_rpn self) (rpn_prediction pd) = d1"
    and "RCNN_loss env (self_rcnn self) (classification_prediction pd) = d2"
    and "map_of d1 ''rpn_cls_loss'' = Some a" and "map_of d1 ''rpn_reg_loss'' = Some b"
    and "map_of d2 ''rcnn_cls_loss'' = Some c" and "map_of d2 ''rcnn_reg_loss'' = Some d"
  shows "\<exists>total g'. loss env self pd g = Inr (total, g')
     \<and> total = sum_list (losses g) + sum_list (regularization_losses g)
         + (a * self_rpn_cls_loss_weight self + b * self_rpn_reg_loss_weight self
              + (sum_list (map snd d1) - a - b))
         + (c * self_rcnn_cls_loss_weight self + d * self_rcnn_reg_loss_weight self
              + (sum_list (map snd d2) - c - d))
     \<and> (losses g = [] \<and> regularization_losses g = []
          \<and> distinct (map fst d1) \<and> fst ` set d1 = {''rpn_cls_loss'', ''rpn_reg_loss''}
          \<and> distinct (map fst d2) \<and> fst ` set d2 = {''rcnn_cls_loss'', ''rcnn_reg_loss''}
        \<longrightarrow> total = a * self_rpn_cls_loss_weight self + b * self_rpn_reg_loss_weight self
                  + c * self_rcnn_cls_loss_weight self + d * self_rcnn_reg_loss_weight self)"
proof -
  let ?rpn2 = "AList.update ''rpn_reg_loss'' (b * self_rpn_reg_loss_weight self)
                 (AList.update ''rpn_cls_loss'' (a * self_rpn_cls_loss_weight self) d1)"
  let ?rcnn2 = "AList.update ''rcnn_reg_loss'' (d * self_rcnn_reg_loss_weight self)
                 (AList.update ''rcnn_cls_loss'' (c * self_rcnn_cls_loss_weight self) d2)"
  let ?total = "sum_list (losses g) + sum_list (map snd (?rpn2 @ ?rcnn2))
                  + sum_list (regularization_losses g)"
  have n1: "''rpn_cls_loss'' \<noteq> ''rpn_reg_loss''" and n2: "''rcnn_cls_loss'' \<noteq> ''rcnn_reg_loss''"
    by simp_all
  have m: "map_of (RPN_loss env (self_rpn self) (rpn_prediction pd)) ''rpn_cls_loss'' = Some a"
    "map_of (RPN_loss env (self_rpn self) (rpn_prediction pd)) ''rpn_reg_loss'' = Some b"
    "map_of (RCNN_loss env (self_rcnn self) (classification_prediction pd)) ''rcnn_cls_loss'' = Some c"
    "map_of (RCNN_loss env (self_rcnn self) (classification_prediction pd)) ''rcnn_reg_loss'' = Some d"
    by (simp_all only: assms)
  note l = loss_eq[OF m, of g, unfolded assms(1,2)]
  have w1: "sum_list (map snd ?rpn2) =
              a * self_rpn_cls_loss_weight self + b * self_rpn_reg_loss_weight self
                + (sum_list (map snd d1) - a - b)"
    by (rule weighted_sum[OF assms(3,4) n1])
  have w2: "sum_list (map snd ?rcnn2) =
              c * self_rcnn_cls_loss_weight self + d * self_rcnn_reg_loss_weight self
                + (sum_list (map snd d2) - c - d)"
    by (rule weighted_sum[OF assms(5,6) n2])
  have t: "?total = sum_list (losses g) + sum_list (regularization_losses g)
         + (a * self_rpn_cls_loss_weight self + b * self_rpn_reg_loss_weight self
              + (sum_list (map snd d1) - a - b))
         + (c * self_rcnn_cls_loss_weight self + d * self_rcnn_reg_loss_weight self
              + (sum_list (map snd d2) - c - d))"
    using w1 w2 by simp
  have e: "?total = a * self_rpn_cls_loss_weight self + b * self_rpn_reg_loss_weight self
                  + c * self_rcnn_cls_loss_weight self + d * self_rcnn_reg_loss_weight self"
    if "losses g = []" "regularization_losses g = []"
       "distinct (map fst d1)" "fst ` set d1 = {''rpn_cls_loss'', ''rpn_reg_loss''}"
       "distinct (map fst d2)" "fst ` set d2 = {''rcnn_cls_loss'', ''rcnn_reg_loss''}"
  proof -
    have "sum_list (map snd d1) = a + b"
      by (rule dict_two_sum[OF that(3,4) n1 assms(3,4)])
    moreover have "sum_list (map snd d2) = c + d"
      by (rule dict_two_sum[OF that(5,6) n2 assms(5,6)])
    ultimately show ?thesis using t that(1,2) by simp
  qed
  show ?thesis
  proof (intro exI conjI impI)
    show "loss env self pd g = Inr (?total, g\<lparr>losses := losses g @ map snd (?rpn2 @ ?rcnn2),
            scalar_summaries := scalar_summaries g @ (?rpn2 @ ?rcnn2) @ [(''total_loss'', ?total)]\<rparr>)"
      by (rule l)
    show "?total = sum_list (losses g) + sum_list (regularization_losses g)
         + (a * self_rpn_cls_loss_weight self + b * self_rpn_reg_loss_weight self
              + (sum_list (map snd d1) - a - b))
         + (c * self_rcnn_cls_loss_weight self + d * self_rcnn_reg_loss_weight self
              + (sum_list (map snd d2) - c - d))"
      by (rule t)
    assume "losses g = [] \<and> regularization_losses g = []
          \<and> distinct (map fst d1) \<and> fst ` set d1 = {''rpn_cls_loss'', ''rpn_reg_loss''}
          \<and> distinct (map fst d2) \<and> fst ` set d2 = {''rcnn_cls_loss'', ''rcnn_reg_loss''}"
    then show "?total = a * self_rpn_cls_loss_weight self + b * self_rpn_reg_loss_weight self
                  + c * self_rcnn_cls_loss_weight self + d * self_rcnn_reg_loss_weight self"
      by (elim conjE) (rule e)
  qed
qed

theorem loss_total_witness:
  "(\<exists>g'. loss demo_env demo_self demo_prediction (empty_graph\<lparr>losses := [5]\<rparr>) = Inr (2126, g'))
   \<and> (\<exists>g'. loss demo_env demo_self demo_prediction empty_graph = Inr (2121, g'))"
proof -
  have d: "RPN_loss demo_env (self_rpn demo_self) (rpn_prediction demo_prediction)
             = [(''rpn_cls_loss'', 1), (''rpn_reg_loss'', 10)]"
    "RCNN_loss demo_env (self_rcnn demo_self) (classification_prediction demo_prediction)
             = [(''rcnn_cls_loss'', 100), (''rcnn_reg_loss'', 1000)]"
    by (simp_all add: demo_losses)
  have m: "map_of [(''rpn_cls_loss'', 1 :: real), (''rpn_reg_loss'', 10)] ''rpn_cls_loss'' = Some 1"
    "map_of [(''rpn_cls_loss'', 1 :: real), (''rpn_reg_loss'', 10)] ''rpn_reg_loss'' = Some 10"
    "map_of [(''rcnn_cls_loss'', 100 :: real), (''rcnn_reg_loss'', 1000)] ''rcnn_cls_loss'' = Some 100"
    "map_of [(''rcnn_cls_loss'', 100 :: real), (''rcnn_reg_loss'', 1000)] ''rcnn_reg_loss'' = Some 1000"
    by simp_all
  note t = loss_total[OF d m]
  from t[of "empty_graph\<lparr>losses := [5]\<rparr>"] obtain total g' where
    a: "loss demo_env demo_self demo_prediction (empty_graph\<lparr>losses := [5]\<rparr>) = Inr (total, g')"
    and b: "total = sum_list (losses (empty_graph\<lparr>losses := [5]\<rparr>))
         + sum_list (regularization_losses (empty_graph\<lparr>losses := [5]\<rparr>))
         + (1 * self_rpn_cls_loss_weight demo_self + 10 * self_rpn_reg_loss_weight demo_self
              + (sum_list (map snd [(''rpn_cls_loss'', 1 :: real), (''rpn_reg_loss'', 10)]) - 1 - 10))
         + (100 * self_rcnn_cls_loss_weight demo_self + 1000 * self_rcnn_reg_loss_weight demo_self
              + (sum_list (map snd [(''rcnn_cls_loss'', 100 :: real), (''rcnn_reg_loss'', 1000)]) - 100 - 1000))"
    by (elim exE conjE) (rule that)
  have "total = 2126" using b by (simp add: demo_weights empty_graph_def)
  with a have first: "\<exists>g'. loss demo_env demo_self demo_prediction (empty_graph\<lparr>losses := [5]\<rparr>) = Inr (2126, g')"
    by (intro exI[of _ g']) simp
  from t[of empty_graph] obtain total2 g2 where
    a2: "loss demo_env demo_self demo_prediction empty_graph = Inr (total2, g2)"
    and b2: "losses empty_graph = [] \<and> regularization_losses empty_graph = []
          \<and> distinct (map fst [(''rpn_cls_loss'', 1 :: real), (''rpn_reg_loss'', 10)])
          \<and> fst ` set [(''rpn_cls_loss'', 1 :: real), (''rpn_reg_loss'', 10)] = {''rpn_cls_loss'', ''rpn_reg_loss''}
          \<and> distinct (map fst [(''rcnn_cls_loss'', 100 :: real), (''rcnn_reg_loss'', 1000)])
          \<and> fst ` set [(''rcnn_cls_loss'', 100 :: real), (''rcnn_reg_loss'', 1000)] = {''rcnn_cls_loss'', ''rcnn_reg_loss''}
        \<longrightarrow> total2 = 1 * self_rpn_cls_loss_weight demo_self + 10 * self_rpn_reg_loss_weight demo_self
                  + 100 * self_rcnn_cls_loss_weight demo_self + 1000 * self_rcnn_reg_loss_weight demo_self"
    by (elim exE conjE) (rule that)
  have "total2 = 2121" using b2 by (simp add: demo_weights empty_graph_def)
  with a2 have "\<exists>g'. loss demo_env demo_self demo_prediction empty_graph = Inr (2121, g')"
    by (intro exI[of _ g2]) simp
  with first show ?thesis by (rule conjI)
qed




lemma loss_ignores_cfg: "loss env (self\<lparr>self_cfg := c\<rparr>) pd g = loss env self pd g"
  by (simp add: loss_def split: sum.splits)

text \<open>
  C4 as stated fails: the constructor does not take the loss weights from the configuration.
  A configuration whose four weights are 5 gives an orchestrator with the weights 1, 2, 1, 2,
  and \<open>loss\<close> returns 2121 for the component losses 1, 10, 100, 1000, not 5555.
\<close>

theorem init_weights_counterexample:
  "FasterRCNN_init demo_env demo_config (Some 20) = Inr demo_self
   \<and> (rpn_cls_weight demo_config, rpn_reg_weight demo_config,
      rcnn_cls_weight demo_config, rcnn_reg_weight demo_config) = (5, 5, 5, 5)
   \<and> (self_rpn_cls_loss_weight demo_self, self_rpn_reg_loss_weight demo_self,
      self_rcnn_cls_loss_weight demo_self, self_rcnn_reg_loss_weight demo_self) = (1, 2, 1, 2)
   \<and> map_sum id fst (loss demo_env demo_self demo_prediction empty_graph) = Inr 2121
   \<and> (2121 :: real) \<noteq> 1 * rpn_cls_weight demo_config + 10 * rpn_reg_weight demo_config
                + 100 * rcnn_cls_weight demo_config + 1000 * rcnn_reg_weight demo_config"
proof -
  have m: "map_of (RPN_loss demo_env (self_rpn demo_self) (rpn_prediction demo_prediction)) ''rpn_cls_loss'' = Some 1"
    "map_of (RPN_loss demo_env (self_rpn demo_self) (rpn_prediction demo_prediction)) ''rpn_reg_loss'' = Some 10"
    "map_of (RCNN_loss demo_env (self_rcnn demo_self) (classification_prediction demo_prediction)) ''rcnn_cls_loss'' = Some 100"
    "map_of (RCNN_loss demo_env (self_rcnn demo_self) (classification_prediction demo_prediction)) ''rcnn_reg_loss'' = Some 1000"
    by (simp_all add: demo_losses)
  have i: "FasterRCNN_init demo_env demo_config (Some 20) = Inr demo_self"
    by (simp add: FasterRCNN_init_def demo_env_def demo_self_def demo_config_def demo_reference_def)
  have l: "map_sum id fst (loss demo_env demo_self demo_prediction empty_graph) = Inr 2121"
    by (simp add: loss_eq[OF m] demo_losses demo_weights empty_graph_def)
  have c: "(rpn_cls_weight demo_config, rpn_reg_weight demo_config,
      rcnn_cls_weight demo_config, rcnn_reg_weight demo_config) = (5, 5, 5, 5)"
    by (simp add: demo_config_def)
  from i l c show ?thesis by (simp add: demo_weights)
qed

text \<open>
  C4, amended. Every orchestrator the constructor returns has the loss weights 1, 2, 1, 2;
  changing the four weights of the configuration changes neither them nor any result of
  \<open>loss\<close>.
\<close>

theorem init_weights_fixed:
  assumes "FasterRCNN_init env cfg nc = Inr self"
  shows "self_rpn_cls_loss_weight self = 1 \<and> self_rpn_reg_loss_weight self = 2
     \<and> self_rcnn_cls_loss_weight self = 1 \<and> self_rcnn_reg_loss_weight self = 2
     \<and> (\<forall>x1 x2 x3 x4. \<exists>self'.
          FasterRCNN_init env (cfg\<lparr>rpn_cls_weight := x1, rpn_reg_weight := x2,
                                    rcnn_cls_weight := x3, rcnn_reg_weight := x4\<rparr>) nc = Inr self'
        \<and> self_rpn_cls_loss_weight self' = 1 \<and> self_rpn_reg_loss_weight self' = 2
        \<and> self_rcnn_cls_loss_weight self' = 1 \<and> self_rcnn_reg_loss_weight self' = 2
        \<and> (\<forall>pd g. loss env self' pd g = loss env self pd g))"
proof -
  from assms obtain reference where
    r: "generate_anchors_reference env (ANCHOR_BASE_SIZE cfg) (ANCHOR_RATIOS cfg) (ANCHOR_SCALES cfg)
          = Inr reference"
    by (auto simp: FasterRCNN_init_def split: sum.splits)
  have w: "self_rpn_cls_loss_weight self = 1 \<and> self_rpn_reg_loss_weight self = 2
     \<and> self_rcnn_cls_loss_weight self = 1 \<and> self_rcnn_reg_loss_weight self = 2"
    using assms r by (auto simp: FasterRCNN_init_def split: sum.splits)
  have "FasterRCNN_init env (cfg\<lparr>rpn_cls_weight := x1, rpn_reg_weight := x2,
                                    rcnn_cls_weight := x3, rcnn_reg_weight := x4\<rparr>) nc
          = Inr (self\<lparr>self_cfg := cfg\<lparr>rpn_cls_weight := x1, rpn_reg_weight := x2,
                                    rcnn_cls_weight := x3, rcnn_reg_weight := x4\<rparr>\<rparr>)" for x1 x2 x3 x4
    using assms r by (auto simp: FasterRCNN_init_def split: sum.splits)
  then show ?thesis using w by (auto simp: loss_ignores_cfg)
qed

theorem init_weights_fixed_witness:
  "self_rpn_cls_loss_weight demo_self = 1 \<and> self_rpn_reg_loss_weight demo_self = 2
     \<and> self_rcnn_cls_loss_weight demo_self = 1 \<and> self_rcnn_reg_loss_weight demo_self = 2
     \<and> (\<exists>self'. FasterRCNN_init demo_env
            (demo_config\<lparr>rpn_cls_weight := 7, rpn_reg_weight := 8,
                         rcnn_cls_weight := 9, rcnn_reg_weight := 10\<rparr>) (Some 20) = Inr self'
          \<and> self_rpn_cls_loss_weight self' = 1 \<and> self_rpn_reg_loss_weight self' = 2
          \<and> self_rcnn_cls_loss_weight self' = 1 \<and> self_rcnn_reg_loss_weight self' = 2
          \<and> loss demo_env self' demo_prediction empty_graph
              = loss demo_env demo_self demo_prediction empty_graph)"
proof -
  have i: "FasterRCNN_init demo_env demo_config (Some 20) = Inr demo_self"
    by (simp add: FasterRCNN_init_def demo_env_def demo_self_def demo_config_def demo_reference_def)
  from init_weights_fixed[OF i] have
    w: "self_rpn_cls_loss_weight demo_self = 1 \<and> self_rpn_reg_loss_weight demo_self = 2
     \<and> self_rcnn_cls_loss_weight demo_self = 1 \<and> self_rcnn_reg_loss_weight demo_self = 2"
    and a: "\<forall>x1 x2 x3 x4. \<exists>self'.
          FasterRCNN_init demo_env (demo_config\<lparr>rpn_cls_weight := x1, rpn_reg_weight := x2,
                                    rcnn_cls_weight := x3, rcnn_reg_weight := x4\<rparr>) (Some 20) = Inr self'
        \<and> self_rpn_cls_loss_weight self' = 1 \<and> self_rpn_reg_loss_weight self' = 2
        \<and> self_rcnn_cls_loss_weight self' = 1 \<and> self_rcnn_reg_loss_weight self' = 2
        \<and> (\<forall>pd g. loss demo_env self' pd g = loss demo_env demo_self pd g)"
    by simp_all
  from a have "\<exists>self'.
          FasterRCNN_init demo_env (demo_config\<lparr>rpn_cls_weight := 7, rpn_reg_weight := 8,
                                    rcnn_cls_weight := 9, rcnn_reg_weight := 10\<rparr>) (Some 20) = Inr self'
        \<and> self_rpn_cls_loss_weight self' = 1 \<and> self_rpn_reg_loss_weight self' = 2
        \<and> self_rcnn_cls_loss_weight self' = 1 \<and> self_rcnn_reg_loss_weight self' = 2
        \<and> (\<forall>pd g. loss demo_env self' pd g = loss demo_env demo_self pd g)"
    by (elim allE)
  then obtain self' where
    s: "FasterRCNN_init demo_env (demo_config\<lparr>rpn_cls_weight := 7, rpn_reg_weight := 8,
                                    rcnn_cls_weight := 9, rcnn_reg_weight := 10\<rparr>) (Some 20) = Inr self'"
      "self_rpn_cls_loss_weight self' = 1" "self_rpn_reg_loss_weight self' = 2"
      "self_rcnn_cls_loss_weight self' = 1" "self_rcnn_reg_loss_weight self' = 2"
      "\<forall>pd g. loss demo_env self' pd g = loss demo_env demo_self pd g"
    by (elim exE conjE) (rule that)
  show ?thesis using w s by (intro conjI exI[of _ self']) simp_all
qed

section \<open>Properties of construction and of checkpoint loading\<close>




text \<open>
  C10. For every argument \<open>load_from_checkpoints\<close> returns \<open>None\<close> and leaves every field of
  the orchestrator, and the global graph, as they were.
\<close>

theorem load_from_checkpoints_noop:
  "load_from_checkpoints self checkpoints g = ((), self, g)"
  by (simp add: load_from_checkpoints_def)

end
